theory Spec2Isabelle
  imports Complex_Main "HOL-Library.AList" "HOL-Library.Multiset"
begin

section \<open>JavaScript strings and numbers\<close>

text \<open>
  A JavaScript string is the list of its code units, and \<open>length\<close> is its
  \<^verbatim>\<open>.length\<close>. A \<^typ>\<open>char\<close> holds the code units below 256, which is all the
  literals of \<^verbatim>\<open>generate.ts\<close> need. The numeric options are integers
  (\<^typ>\<open>int\<close>): a negative limit is a value the code can be given, a fraction is not
  modelled.
\<close>

fun startsWith :: "string \<Rightarrow> string \<Rightarrow> bool" where
  "startsWith s [] = True"
| "startsWith [] (p # ps) = False"
| "startsWith (c # s) (p # ps) = (c = p \<and> startsWith s ps)"

text \<open>\<^verbatim>\<open>s.includes(p)\<close>: \<open>p\<close> occurs in \<open>s\<close> as a contiguous block.\<close>

fun includesStr :: "string \<Rightarrow> string \<Rightarrow> bool" where
  "includesStr [] p = (p = [])"
| "includesStr (c # s) p = (startsWith (c # s) p \<or> includesStr s p)"

definition endsWith :: "string \<Rightarrow> string \<Rightarrow> bool" where
  "endsWith s p = startsWith (rev s) (rev p)"

text \<open>White space and line terminators of ECMAScript among the code units below 256.\<close>

definition isWhiteSpace :: "char \<Rightarrow> bool" where
  "isWhiteSpace c =
     (c = CHR 0x09 \<or> c = CHR 0x0A \<or> c = CHR 0x0B \<or> c = CHR 0x0C \<or> c = CHR 0x0D
      \<or> c = CHR 0x20 \<or> c = CHR 0xA0)"

definition trim :: "string \<Rightarrow> string" where
  "trim s = rev (dropWhile isWhiteSpace (rev (dropWhile isWhiteSpace s)))"

text \<open>\<^verbatim>\<open>s.substring(0, n)\<close>: a negative end counts as 0, one past the end as the length.\<close>

definition substring0 :: "string \<Rightarrow> int \<Rightarrow> string" where
  "substring0 s n = take (nat n) s"

text \<open>\<^verbatim>\<open>xs.slice(0, n)\<close>: a negative end counts from the end of the array.\<close>

definition slice0 :: "'a list \<Rightarrow> int \<Rightarrow> 'a list" where
  "slice0 xs n = (if n < 0 then take (nat (int (length xs) + n)) xs else take (nat n) xs)"

text \<open>The decimal numeral a template literal prints for a number.\<close>

definition digitChar :: "nat \<Rightarrow> char" where
  "digitChar d = ''0123456789'' ! d"

function showNat :: "nat \<Rightarrow> string" where
  "showNat n =
     (if n < 10 then [digitChar n]
      else showNat (n div 10) @ [digitChar (n mod 10)])"
  by pat_completeness auto
termination
  by (relation "measure id") auto

declare showNat.simps [simp del]

definition showInt :: "int \<Rightarrow> string" where
  "showInt i = (if i < 0 then CHR ''-'' # showNat (nat (- i)) else showNat (nat i))"

section \<open>The data model of \<^verbatim>\<open>types.ts\<close>\<close>

datatype ErrorType =
  NETWORK_ERROR | PARSE_ERROR | TIMEOUT_ERROR | ROBOTS_BLOCKED | INVALID_URL | CONTENT_TOO_LARGE

text \<open>
  What a \<^verbatim>\<open>throw\<close> or a rejected promise carries: a \<^verbatim>\<open>GeneratorError\<close>
  (message, type, url), any other \<^verbatim>\<open>Error\<close> (message), or a value that is no
  \<^verbatim>\<open>Error\<close> at all.
\<close>

datatype thrown =
  GeneratorError string ErrorType "string option"
| Error string
| NonError

text \<open>\<^verbatim>\<open>error instanceof Error ? error.message : 'Unknown error'\<close>\<close>

fun messageOf :: "thrown \<Rightarrow> string" where
  "messageOf (GeneratorError m t u) = m"
| "messageOf (Error m) = m"
| "messageOf NonError = ''Unknown error''"

text \<open>An optional string that is set and not empty: what \<^verbatim>\<open>if (lastmod)\<close> lets through.\<close>

definition truthy :: "string option \<Rightarrow> string option" where
  "truthy x = (case x of Some l \<Rightarrow> (if l = [] then None else Some l) | None \<Rightarrow> None)"

record SitemapUrl =
  loc :: string
  lastmod :: "string option"

datatype DiscoveryMethod = sitemap | internal_link | external_link

record DiscoveredUrl =
  d_url :: string
  depth :: int
  parentUrl :: "string option"
  discoveryMethod :: DiscoveryMethod
  d_lastmod :: "string option"

record PageResult =
  url :: string
  title :: string
  content :: string
  success :: bool
  error :: "string option"
  timestamp :: nat
  contentLength :: nat
  p_lastmod :: "string option"
  language :: "string option"
  statusCode :: "nat option"
  skipReason :: "string option"
  truncated :: "bool option"
  originalLength :: "nat option"

record GenerationStats =
  truncatedPages :: nat
  globalLimitReached :: bool

record ContentCategory =
  c_id :: string
  c_priority :: int
  urlPatterns :: "string list"
  contentPatterns :: "string list"
  c_maxPages :: "int option"
  enabled :: bool

text \<open>
  The configuration a \<^verbatim>\<open>ContentFilter\<close> holds, that is, the user's object spread over
  \<^verbatim>\<open>DEFAULT_FILTER_CONFIG\<close>.
\<close>

record ContentFilterConfig =
  categories :: "ContentCategory list"
  defaultCategory :: string
  minContentLength :: "int option"
  maxContentLength :: "int option"
  priorityKeywords :: "string list option"
  excludeKeywords :: "string list option"

datatype OutputFormat = full | small | minimal

record FormatLimit =
  f_maxPages :: "int option"
  f_maxCharsPerPage :: "int option"
  f_maxTotalChars :: "int option"

text \<open>
  The options after \<^verbatim>\<open>mergeWithDefaults\<close>, as far as the crawl pipeline reads them.
  A pattern is a string (tested with \<^verbatim>\<open>includes\<close>) or a regular expression,
  which is its \<^verbatim>\<open>test\<close> as a predicate. \<open>contentFilter = None\<close> is the empty
  object, the default.
\<close>

datatype pattern = StringPattern string | RegExpPattern "string \<Rightarrow> bool"

record Options =
  siteUrl :: string
  sitemapUrl :: string
  maxPages :: int
  concurrency :: int
  includePatterns :: "pattern list"
  excludePatterns :: "pattern list"
  maxCharsPerPage :: int
  maxTotalChars :: int
  keepQueryParams :: "string list"
  contentTransformer :: "string \<Rightarrow> string \<Rightarrow> thrown + string"
  enableRecursiveDiscovery :: bool
  maxRecursiveDepth :: int
  maxLinksPerPage :: int
  outputFormat :: OutputFormat
  formatLimits :: "OutputFormat \<Rightarrow> FormatLimit option"
  contentFilter :: "ContentFilterConfig option"

text \<open>The \<^verbatim>\<open>formatLimits\<close> that \<^verbatim>\<open>mergeWithDefaults\<close> supplies when the user gives none.\<close>

definition defaultFormatLimits :: "OutputFormat \<Rightarrow> FormatLimit option" where
  "defaultFormatLimits f =
     (case f of
        full \<Rightarrow> Some \<lparr> f_maxPages = Some 5000, f_maxCharsPerPage = Some 200000,
                        f_maxTotalChars = Some 50000000 \<rparr>
      | small \<Rightarrow> Some \<lparr> f_maxPages = Some 100, f_maxCharsPerPage = Some 50000,
                         f_maxTotalChars = Some 5000000 \<rparr>
      | minimal \<Rightarrow> Some \<lparr> f_maxPages = Some 20, f_maxCharsPerPage = Some 10000,
                           f_maxTotalChars = Some 200000 \<rparr>)"

definition applyFormatLimits :: "Options \<Rightarrow> Options" where
  "applyFormatLimits opts =
     (case formatLimits opts (outputFormat opts) of
        None \<Rightarrow> opts
      | Some fl \<Rightarrow>
          opts\<lparr> maxPages := (case f_maxPages fl of Some n \<Rightarrow> n | None \<Rightarrow> maxPages opts),
                maxCharsPerPage := (case f_maxCharsPerPage fl of Some n \<Rightarrow> n
                                    | None \<Rightarrow> maxCharsPerPage opts),
                maxTotalChars := (case f_maxTotalChars fl of Some n \<Rightarrow> n
                                  | None \<Rightarrow> maxTotalChars opts) \<rparr>)"

section \<open>The fetcher\<close>

text \<open>
  A response of \<^verbatim>\<open>fetch\<close>: status line, the content-type header, and the body that
  \<^verbatim>\<open>response.text()\<close> reads (\<open>Inl\<close> when reading fails).
\<close>

record Response =
  status :: nat
  statusText :: string
  contentType :: "string option"
  body :: "thrown + string"

definition ok :: "Response \<Rightarrow> bool" where
  "ok r = (200 \<le> status r \<and> status r \<le> 299)"

text \<open>One call of \<^verbatim>\<open>fetch\<close>: the promise rejects, or it resolves to a response.\<close>

datatype fetch_result = Rejected thrown | Resolved Response

text \<open>What the retry loop does besides returning: the fetches it makes and the delays it waits.\<close>

datatype io_event = FetchCall nat | Delay nat

text \<open>
  The body of the \<^verbatim>\<open>try\<close> in \<^verbatim>\<open>fetchWithRetry\<close>: a response that is \<^verbatim>\<open>ok\<close> is
  returned, any other is thrown as a \<^verbatim>\<open>GeneratorError\<close>, inside the \<^verbatim>\<open>try\<close>.
\<close>

definition tryFetch :: "string \<Rightarrow> fetch_result \<Rightarrow> thrown + Response" where
  "tryFetch u r =
     (case r of
        Rejected e \<Rightarrow> Inl e
      | Resolved response \<Rightarrow>
          if ok response then Inr response
          else Inl (GeneratorError
                 (''HTTP '' @ showNat (status response) @ '': '' @ statusText response)
                 NETWORK_ERROR (Some u)))"

text \<open>
  The loop \<^verbatim>\<open>for (attempt = 0; attempt < retries; attempt++)\<close>. \<open>net\<close> gives the
  outcome of the fetch of each attempt. The \<^verbatim>\<open>catch\<close> rethrows on the last attempt
  and otherwise waits \<open>250 * (attempt + 1)\<close> ms and goes round again.
\<close>

function fetchLoop ::
  "(nat \<Rightarrow> fetch_result) \<Rightarrow> string \<Rightarrow> nat \<Rightarrow> nat \<Rightarrow> io_event list
     \<Rightarrow> (thrown + Response) \<times> io_event list" where
  "fetchLoop net u retries attempt evs =
     (if attempt < retries then
        (case tryFetch u (net attempt) of
           Inr response \<Rightarrow> (Inr response, evs @ [FetchCall attempt])
         | Inl e \<Rightarrow>
             if attempt = retries - 1 then (Inl e, evs @ [FetchCall attempt])
             else fetchLoop net u retries (attempt + 1)
                    (evs @ [FetchCall attempt, Delay (250 * (attempt + 1))]))
      else (Inl (GeneratorError
                   (''Failed to fetch after '' @ showNat retries @ '' attempts'')
                   NETWORK_ERROR (Some u)), evs))"
  by pat_completeness auto
termination
  by (relation "measure (\<lambda>(net, u, retries, attempt, evs). retries - attempt)") auto

declare fetchLoop.simps [simp del]

text \<open>Every caller in \<^verbatim>\<open>generate.ts\<close> leaves \<open>retries\<close> at its default, 3.\<close>

definition fetchWithRetry ::
  "(nat \<Rightarrow> fetch_result) \<Rightarrow> string \<Rightarrow> (thrown + Response) \<times> io_event list" where
  "fetchWithRetry net u = fetchLoop net u 3 0 []"

section \<open>Crawling one page\<close>

text \<open>
  The world outside the generator, as functions it is given:
  \<^item> \<open>net u k\<close>: the outcome of attempt \<open>k\<close> of fetching \<open>u\<close>;
  \<^item> \<open>now u\<close>: the clock when the crawl of \<open>u\<close> starts;
  \<^item> \<open>extractContent u html\<close>: \<^verbatim>\<open>extractContent\<close> (JSDOM, Readability and Turndown),
    which may throw;
  \<^item> \<open>anchorHrefs u html\<close>: for each \<^verbatim>\<open>a[href]\<close> of the page, in document order,
    \<^verbatim>\<open>new URL(href, u).toString()\<close>, or \<open>None\<close> where that throws; \<open>Inl\<close> when JSDOM
    throws;
  \<^item> \<open>parseDate s\<close>: \<^verbatim>\<open>new Date(s).getTime()\<close>, \<open>None\<close> for NaN;
  \<^item> \<open>localeCompare a b\<close>: \<^verbatim>\<open>a.localeCompare(b)\<close>;
  \<^item> \<open>regexMatchCount p s\<close>: the number of matches of \<^verbatim>\<open>new RegExp(p, 'gi')\<close> in
    \<open>s\<close>, \<open>Inl\<close> when \<open>p\<close> is no regular expression.
\<close>

record Extracted =
  e_title :: string
  e_content :: string
  e_language :: "string option"

record World =
  net :: "string \<Rightarrow> nat \<Rightarrow> fetch_result"
  now :: "string \<Rightarrow> nat"
  extractContent :: "string \<Rightarrow> string \<Rightarrow> thrown + Extracted"
  anchorHrefs :: "string \<Rightarrow> string \<Rightarrow> thrown + string option list"
  parseDate :: "string \<Rightarrow> int option"
  localeCompare :: "string \<Rightarrow> string \<Rightarrow> int"
  regexMatchCount :: "string \<Rightarrow> string \<Rightarrow> thrown + nat"

definition skipped ::
  "string \<Rightarrow> string option \<Rightarrow> nat \<Rightarrow> string \<Rightarrow> string \<Rightarrow> nat \<Rightarrow> string \<Rightarrow> PageResult" where
  "skipped u lm startTime c err st reason =
     \<lparr> url = u, title = ''Skipped'', content = c, success = False, error = Some err,
       timestamp = startTime, contentLength = 0,
       p_lastmod = truthy lm, language = None, statusCode = Some st, skipReason = Some reason,
       truncated = Some False, originalLength = None \<rparr>"

text \<open>The \<^verbatim>\<open>catch\<close> of \<^verbatim>\<open>crawlSinglePage\<close>.\<close>

definition crawlFailed :: "string \<Rightarrow> string option \<Rightarrow> nat \<Rightarrow> thrown \<Rightarrow> PageResult" where
  "crawlFailed u lm startTime e =
     skipped u lm startTime (''(Fetch/parse error: '' @ messageOf e @ '')'') (messageOf e) 0
       ''parse-error''"

definition crawlSinglePage :: "Options \<Rightarrow> World \<Rightarrow> string \<Rightarrow> string option \<Rightarrow> PageResult" where
  "crawlSinglePage opts w u lm =
     (let startTime = now w u in
      case fst (fetchWithRetry (net w u) u) of
        Inl e \<Rightarrow> crawlFailed u lm startTime e
      | Inr response \<Rightarrow>
          if \<not> ok response then
            skipped u lm startTime
              (''Failed to fetch: '' @ showNat (status response) @ '' '' @ statusText response)
              (''HTTP '' @ showNat (status response)) (status response)
              (''http-'' @ showNat (status response))
          else if \<not> includesStr (case contentType response of Some t \<Rightarrow> t | None \<Rightarrow> '''')
                      ''text/html'' then
            skipped u lm startTime ''No content extracted.'' ''Non-HTML content type''
              (status response) ''content-type''
          else
            (case body response of
               Inl e \<Rightarrow> crawlFailed u lm startTime e
             | Inr html \<Rightarrow>
                 if length html > 5 * 1024 * 1024 then
                   skipped u lm startTime ''No content extracted.'' ''Content too large''
                     (status response) ''too-large''
                 else
                   (case extractContent w u html of
                      Inl e \<Rightarrow> crawlFailed u lm startTime e
                    | Inr ex \<Rightarrow>
                        (case contentTransformer opts (e_content ex) u of
                           Inl e \<Rightarrow> crawlFailed u lm startTime e
                         | Inr transformedContent \<Rightarrow>
                             \<lparr> url = u, title = e_title ex, content = transformedContent,
                               success = True, error = None, timestamp = startTime,
                               contentLength = length transformedContent,
                               p_lastmod = truthy lm, language = truthy (e_language ex),
                               statusCode = Some (status response), skipReason = None,
                               truncated = Some False,
                               originalLength = Some (length transformedContent) \<rparr>))))"

section \<open>URLs\<close>

text \<open>
  The \<^verbatim>\<open>URL\<close> and \<^verbatim>\<open>URLSearchParams\<close> classes are the platform's, not the
  repository's: they are a parameter, a record of functions over the type \<open>'u\<close> of URL
  objects.
  \<^item> \<open>url_parse s\<close>: \<^verbatim>\<open>new URL(s)\<close>, \<open>None\<close> when it throws;
  \<^item> \<open>url_toString\<close>, \<open>url_hostname\<close>: \<^verbatim>\<open>toString()\<close> and \<^verbatim>\<open>.hostname\<close>;
  \<^item> \<open>url_set_hash\<close>, \<open>url_set_search\<close>: the setters of \<^verbatim>\<open>.hash\<close> and \<^verbatim>\<open>.search\<close>;
  \<^item> \<open>searchParams_get o k\<close>: \<^verbatim>\<open>o.searchParams.get(k)\<close>, \<open>None\<close> for \<^verbatim>\<open>null\<close>;
  \<^item> \<open>usp_toString ps\<close>: \<^verbatim>\<open>toString()\<close> of the \<^verbatim>\<open>URLSearchParams\<close> whose entries are
    \<open>ps\<close>.
\<close>

record 'u UrlLib =
  url_parse :: "string \<Rightarrow> 'u option"
  url_toString :: "'u \<Rightarrow> string"
  url_hostname :: "'u \<Rightarrow> string"
  url_set_hash :: "'u \<Rightarrow> string \<Rightarrow> 'u"
  url_set_search :: "'u \<Rightarrow> string \<Rightarrow> 'u"
  searchParams_get :: "'u \<Rightarrow> string \<Rightarrow> string option"
  usp_toString :: "(string \<times> string) list \<Rightarrow> string"

text \<open>
  The loop over \<^verbatim>\<open>keepQueryParams\<close>. \<^verbatim>\<open>paramsToKeep\<close> starts empty and is only
  written by \<^verbatim>\<open>set\<close>, so it never holds a name twice: \<^verbatim>\<open>set\<close> is the update of an
  association list, in place for a name that is there and at the end for a new one.
\<close>

definition paramsToKeep :: "'u UrlLib \<Rightarrow> string list \<Rightarrow> 'u \<Rightarrow> (string \<times> string) list" where
  "paramsToKeep lib keep urlObj =
     fold (\<lambda>param ps. case searchParams_get lib urlObj param of
                         None \<Rightarrow> ps
                       | Some v \<Rightarrow> AList.update param v ps) keep []"

definition normalizeUrl :: "'u UrlLib \<Rightarrow> Options \<Rightarrow> string \<Rightarrow> string" where
  "normalizeUrl lib opts u =
     (case url_parse lib u of
        None \<Rightarrow> u
      | Some urlObj \<Rightarrow>
          (let o1 = url_set_hash lib urlObj '''';
               o2 = (if keepQueryParams opts \<noteq> []
                     then url_set_search lib o1
                            (usp_toString lib (paramsToKeep lib (keepQueryParams opts) o1))
                     else url_set_search lib o1 '''')
           in url_toString lib o2))"

definition isInternalUrl :: "'u UrlLib \<Rightarrow> Options \<Rightarrow> string \<Rightarrow> bool" where
  "isInternalUrl lib opts u =
     (case url_parse lib u of
        None \<Rightarrow> False
      | Some urlObj \<Rightarrow>
          (case url_parse lib (siteUrl opts) of
             None \<Rightarrow> False
           | Some siteUrlObj \<Rightarrow> url_hostname lib urlObj = url_hostname lib siteUrlObj))"

section \<open>The sitemap resolver\<close>

text \<open>
  The three regular expressions of \<^verbatim>\<open>extractUrlsFromXml\<close>, as string functions.
  \<open>splitAt p s\<close> cuts \<open>s\<close> at the first occurrence of \<open>p\<close>.
\<close>

fun splitAt :: "string \<Rightarrow> string \<Rightarrow> (string \<times> string) option" where
  "splitAt p [] = (if p = [] then Some ([], []) else None)"
| "splitAt p (c # s) =
     (if startsWith (c # s) p then Some ([], drop (length p) (c # s))
      else map_option (\<lambda>ba. (c # fst ba, snd ba)) (splitAt p s))"

lemma splitAt_length:
  "splitAt p s = Some (b, a) \<Longrightarrow> length a + length p \<le> length s \<or> p = []"
proof (induction s arbitrary: b)
  case Nil
  then show ?case by (simp split: if_splits)
next
  case (Cons c s)
  show ?case
  proof (cases "startsWith (c # s) p")
    case True
    have "startsWith t q \<Longrightarrow> length q \<le> length t" for t q
      by (induction t q rule: startsWith.induct) auto
    from this [OF True] Cons.prems True show ?thesis by auto
  next
    case False
    with Cons.prems obtain b' where "splitAt p s = Some (b', a)" by auto
    from Cons.IH [OF this] show ?thesis by auto
  qed
qed

text \<open>
  \<^verbatim>\<open>/<url>([\s\S]*?)<\/url>/g\<close>: from each \<^verbatim>\<open><url>\<close> to the nearest \<^verbatim>\<open></url>\<close>,
  the next match starting after the last.
\<close>

function urlBlocks :: "string \<Rightarrow> string list" where
  "urlBlocks s =
     (case splitAt ''<url>'' s of
        None \<Rightarrow> []
      | Some (b, rest) \<Rightarrow>
          (case splitAt ''</url>'' rest of
             None \<Rightarrow> []
           | Some (block, rest') \<Rightarrow> block # urlBlocks rest'))"
  by pat_completeness auto
termination
proof (relation "measure length", simp)
  fix s x2 b rest x2a block rest'
  assume "splitAt ''<url>'' s = Some x2" "(b, rest) = x2"
    "splitAt ''</url>'' rest = Some x2a" "(block, rest') = x2a"
  then have "splitAt ''<url>'' s = Some (b, rest)" "splitAt ''</url>'' rest = Some (block, rest')"
    by auto
  from splitAt_length [OF this(1)] splitAt_length [OF this(2)]
  show "(rest', s) \<in> measure length" by auto
qed

declare urlBlocks.simps [simp del]

text \<open>
  \<^verbatim>\<open>/<tag>([^<]+)<\/tag>/\<close>: the first place where the opening tag, at least one
  character other than \<^verbatim>\<open><\<close> and the closing tag follow each other; the capture and
  what comes after the match.
\<close>

fun firstTag :: "string \<Rightarrow> string \<Rightarrow> string \<Rightarrow> (string \<times> string) option" where
  "firstTag opn cls [] = None"
| "firstTag opn cls (c # s) =
     (if startsWith (c # s) opn
         \<and> takeWhile (\<lambda>x. x \<noteq> CHR ''<'') (drop (length opn) (c # s)) \<noteq> []
         \<and> startsWith (dropWhile (\<lambda>x. x \<noteq> CHR ''<'') (drop (length opn) (c # s))) cls
      then Some (takeWhile (\<lambda>x. x \<noteq> CHR ''<'') (drop (length opn) (c # s)),
                 drop (length cls) (dropWhile (\<lambda>x. x \<noteq> CHR ''<'') (drop (length opn) (c # s))))
      else firstTag opn cls s)"

lemma firstTag_length: "firstTag opn cls s = Some (v, r) \<Longrightarrow> length r < length s"
proof (induction s)
  case Nil
  then show ?case by simp
next
  case (Cons c s)
  show ?case
  proof (cases "firstTag opn cls (c # s) = firstTag opn cls s")
    case True
    with Cons show ?thesis by auto
  next
    case False
    then have v: "v = takeWhile (\<lambda>x. x \<noteq> CHR ''<'') (drop (length opn) (c # s))" "v \<noteq> []"
      and r: "r = drop (length cls) (dropWhile (\<lambda>x. x \<noteq> CHR ''<'') (drop (length opn) (c # s)))"
      using Cons.prems by (auto split: if_splits)
    have "length (dropWhile (\<lambda>x. x \<noteq> CHR ''<'') (drop (length opn) (c # s)))
            + length v = length (drop (length opn) (c # s))"
      unfolding v by (metis add.commute length_append takeWhile_dropWhile_id)
    with v(2) r show ?thesis by (cases v) auto
  qed
qed

text \<open>The same expression with the \<^verbatim>\<open>g\<close> flag: all matches, left to right.\<close>

function allTags :: "string \<Rightarrow> string \<Rightarrow> string \<Rightarrow> string list" where
  "allTags opn cls s =
     (case firstTag opn cls s of
        None \<Rightarrow> []
      | Some (v, rest) \<Rightarrow> v # allTags opn cls rest)"
  by pat_completeness auto
termination
proof (relation "measure (\<lambda>(opn, cls, s). length s)", simp)
  fix opn cls s x2 v rest
  assume "firstTag opn cls s = Some x2" "(v, rest) = x2"
  then have "firstTag opn cls s = Some (v, rest)" by simp
  from firstTag_length [OF this]
  show "((opn, cls, rest), (opn, cls, s)) \<in> measure (\<lambda>(opn, cls, s). length s)" by simp
qed

declare allTags.simps [simp del]

definition blockEntry :: "string \<Rightarrow> SitemapUrl option" where
  "blockEntry urlBlock =
     (case firstTag ''<loc>'' ''</loc>'' urlBlock of
        None \<Rightarrow> None
      | Some (l, r) \<Rightarrow>
          Some \<lparr> loc = trim l,
                 lastmod = map_option (\<lambda>m. trim (fst m))
                             (firstTag ''<lastmod>'' ''</lastmod>'' urlBlock) \<rparr>)"

definition extractUrlsFromXml :: "string \<Rightarrow> SitemapUrl list" where
  "extractUrlsFromXml xml =
     (let sitemapUrls = List.map_filter blockEntry (filter (\<lambda>b. b \<noteq> []) (urlBlocks xml))
      in if sitemapUrls = []
         then map (\<lambda>l. \<lparr> loc = trim l, lastmod = None \<rparr>) (allTags ''<loc>'' ''</loc>'' xml)
         else sitemapUrls)"

record SitemapResult =
  s_urls :: "SitemapUrl list"
  isIndex :: bool
  childSitemaps :: "string list option"

definition isXml :: "SitemapUrl \<Rightarrow> bool" where
  "isXml e = endsWith (loc e) ''.xml''"

text \<open>
  \<^verbatim>\<open>parseSitemap\<close>: whatever is thrown inside is rethrown as one
  \<^verbatim>\<open>GeneratorError\<close>.
\<close>

definition sitemapFailed :: "string \<Rightarrow> thrown" where
  "sitemapFailed u = GeneratorError (''Failed to parse sitemap: '' @ u) NETWORK_ERROR (Some u)"

text \<open>The filter of \<^verbatim>\<open>parseSitemap\<close>: the entry's \<open>loc\<close> parses and has the site's hostname.\<close>

definition sameHostname :: "'u UrlLib \<Rightarrow> 'u \<Rightarrow> SitemapUrl \<Rightarrow> bool" where
  "sameHostname lib siteUrlObj e =
     (case url_parse lib (loc e) of
        None \<Rightarrow> False
      | Some urlObj \<Rightarrow> url_hostname lib urlObj = url_hostname lib siteUrlObj)"

definition parseSitemap ::
  "'u UrlLib \<Rightarrow> Options \<Rightarrow> World \<Rightarrow> string \<Rightarrow> thrown + SitemapResult" where
  "parseSitemap lib opts w u =
     (case fst (fetchWithRetry (net w u) u) of
        Inl e \<Rightarrow> Inl (sitemapFailed u)
      | Inr response \<Rightarrow>
          (case body response of
             Inl e \<Rightarrow> Inl (sitemapFailed u)
           | Inr xml \<Rightarrow>
               (let extracted = extractUrlsFromXml xml
                in if list_ex isXml extracted
                   then Inr \<lparr> s_urls = [], isIndex = True,
                              childSitemaps = Some (map loc (filter isXml extracted)) \<rparr>
                   else
                     (case url_parse lib (siteUrl opts) of
                        None \<Rightarrow> Inl (sitemapFailed u)
                      | Some siteUrlObj \<Rightarrow>
                          Inr \<lparr> s_urls = filter (sameHostname lib siteUrlObj) extracted,
                                 isIndex = False, childSitemaps = None \<rparr>))))"

text \<open>
  \<^verbatim>\<open>extractUrls\<close>: the children of an index are parsed one level deep, a child that
  fails is passed over, and the entries are merged in a \<^verbatim>\<open>Map\<close> keyed by \<open>loc\<close>.
\<close>

definition mergeChild ::
  "'u UrlLib \<Rightarrow> Options \<Rightarrow> World \<Rightarrow> string
     \<Rightarrow> (string \<times> SitemapUrl) list \<Rightarrow> (string \<times> SitemapUrl) list" where
  "mergeChild lib opts w childSitemap allUrls =
     (case parseSitemap lib opts w childSitemap of
        Inl e \<Rightarrow> allUrls
      | Inr childResult \<Rightarrow> fold (\<lambda>e m. AList.update (loc e) e m) (s_urls childResult) allUrls)"

definition extractUrls :: "'u UrlLib \<Rightarrow> Options \<Rightarrow> World \<Rightarrow> thrown + SitemapUrl list" where
  "extractUrls lib opts w =
     (case parseSitemap lib opts w (sitemapUrl opts) of
        Inl e \<Rightarrow> Inl e
      | Inr sitemapResult \<Rightarrow>
          (case childSitemaps sitemapResult of
             Some children \<Rightarrow>
               if isIndex sitemapResult
               then Inr (map snd (fold (mergeChild lib opts w) children []))
               else Inr (s_urls sitemapResult)
           | None \<Rightarrow> Inr (s_urls sitemapResult)))"

section \<open>Filtering the sitemap's URLs\<close>

fun matchesPattern :: "string \<Rightarrow> pattern \<Rightarrow> bool" where
  "matchesPattern u (StringPattern p) = includesStr u p"
| "matchesPattern u (RegExpPattern test) = test u"

definition matchesAnyPattern :: "string \<Rightarrow> pattern list \<Rightarrow> bool" where
  "matchesAnyPattern u patterns = list_ex (matchesPattern u) patterns"

text \<open>\<^verbatim>\<open>filtered\<close> after the include patterns, the exclude patterns and the page limit.\<close>

definition limitedUrls :: "Options \<Rightarrow> SitemapUrl list \<Rightarrow> SitemapUrl list" where
  "limitedUrls opts urls =
     (let included = (if includePatterns opts \<noteq> []
                      then filter (\<lambda>e. matchesAnyPattern (loc e) (includePatterns opts)) urls
                      else urls);
          kept = (if excludePatterns opts \<noteq> []
                  then filter (\<lambda>e. \<not> matchesAnyPattern (loc e) (excludePatterns opts)) included
                  else included)
      in slice0 kept (maxPages opts))"

text \<open>The fallback to the site URL when nothing is left.\<close>

definition filterUrls :: "Options \<Rightarrow> SitemapUrl list \<Rightarrow> SitemapUrl list" where
  "filterUrls opts urls =
     (if limitedUrls opts urls = [] then [\<lparr> loc = siteUrl opts, lastmod = None \<rparr>]
      else limitedUrls opts urls)"

section \<open>Recursive link discovery\<close>

text \<open>
  \<^verbatim>\<open>extractLinksFromPage\<close>: every failure inside is caught and gives no links.
\<close>

definition extractLinksFromPage ::
  "'u UrlLib \<Rightarrow> Options \<Rightarrow> World \<Rightarrow> string \<Rightarrow> int \<Rightarrow> DiscoveredUrl list" where
  "extractLinksFromPage lib opts w u d =
     (case fst (fetchWithRetry (net w u) u) of
        Inl e \<Rightarrow> []
      | Inr response \<Rightarrow>
          (case body response of
             Inl e \<Rightarrow> []
           | Inr html \<Rightarrow>
               (case anchorHrefs w u html of
                  Inl e \<Rightarrow> []
                | Inr hrefs \<Rightarrow>
                    map (\<lambda>link. \<lparr> d_url = link, depth = d, parentUrl = Some u,
                                   discoveryMethod = internal_link, d_lastmod = None \<rparr>)
                      (slice0
                         (filter (\<lambda>href. isInternalUrl lib opts href \<and> href \<noteq> u)
                            (map (normalizeUrl lib opts) (List.map_filter id hrefs)))
                         (maxLinksPerPage opts)))))"

text \<open>
  The queue of \<^verbatim>\<open>extractLinksFromPages\<close>: each of the \<open>c\<close> workers shifts the next URL
  and leaves its loop at an empty one (\<^verbatim>\<open>if (!url) break\<close>), so the URLs taken are those
  before the \<open>c\<close>-th empty string.
\<close>

fun drainQueue :: "nat \<Rightarrow> string list \<Rightarrow> string list" where
  "drainQueue 0 us = []"
| "drainQueue (Suc c) [] = []"
| "drainQueue (Suc c) (u # us) = (if u = [] then drainQueue c us else u # drainQueue (Suc c) us)"

text \<open>
  \<^verbatim>\<open>new Array(concurrency)\<close> throws a \<^verbatim>\<open>RangeError\<close> for a negative length. The links
  are pushed as the pages complete; the model lists them in queue order, so for a link
  found on two pages the entry the code keeps (its \<^verbatim>\<open>parentUrl\<close>) may be the other one.
\<close>

definition extractLinksFromPages ::
  "'u UrlLib \<Rightarrow> Options \<Rightarrow> World \<Rightarrow> string list \<Rightarrow> int \<Rightarrow> thrown + DiscoveredUrl list" where
  "extractLinksFromPages lib opts w urls d =
     (if concurrency opts < 0 then Inl (Error ''Invalid array length'')
      else Inr (concat (map (\<lambda>u. extractLinksFromPage lib opts w u d)
                          (drainQueue (nat (concurrency opts)) urls))))"

text \<open>
  \<^verbatim>\<open>discovered\<close> is a \<^verbatim>\<open>Map\<close> and \<^verbatim>\<open>toProcess\<close> a \<^verbatim>\<open>Set\<close>, both in insertion order:
  an association list and a list without repetitions.
\<close>

definition setAdd :: "'a \<Rightarrow> 'a list \<Rightarrow> 'a list" where
  "setAdd x xs = (if x \<in> set xs then xs else xs @ [x])"

definition addInitial ::
  "'u UrlLib \<Rightarrow> Options \<Rightarrow> SitemapUrl
     \<Rightarrow> (string \<times> DiscoveredUrl) list \<times> string list
     \<Rightarrow> (string \<times> DiscoveredUrl) list \<times> string list" where
  "addInitial lib opts e st =
     (let normalizedUrl = normalizeUrl lib opts (loc e)
      in (AList.update normalizedUrl
            \<lparr> d_url = normalizedUrl, depth = 0, parentUrl = None, discoveryMethod = sitemap,
              d_lastmod = truthy (lastmod e) \<rparr> (fst st),
          setAdd normalizedUrl (snd st)))"

definition addNew ::
  "'u UrlLib \<Rightarrow> Options \<Rightarrow> DiscoveredUrl
     \<Rightarrow> (string \<times> DiscoveredUrl) list \<times> string list
     \<Rightarrow> (string \<times> DiscoveredUrl) list \<times> string list" where
  "addNew lib opts newUrl st =
     (let normalizedUrl = normalizeUrl lib opts (d_url newUrl)
      in if map_of (fst st) normalizedUrl = None \<and> isInternalUrl lib opts normalizedUrl
         then (AList.update normalizedUrl newUrl (fst st), setAdd normalizedUrl (snd st))
         else st)"

text \<open>
  The loop \<^verbatim>\<open>for (depth = 0; depth < maxRecursiveDepth; depth++)\<close>: the first argument
  counts the rounds that are left.
\<close>

fun discoverLoop ::
  "'u UrlLib \<Rightarrow> Options \<Rightarrow> World \<Rightarrow> nat \<Rightarrow> int
     \<Rightarrow> (string \<times> DiscoveredUrl) list \<Rightarrow> string list
     \<Rightarrow> thrown + (string \<times> DiscoveredUrl) list" where
  "discoverLoop lib opts w 0 d discovered toProcess = Inr discovered"
| "discoverLoop lib opts w (Suc n) d discovered toProcess =
     (let currentLevelUrls =
            filter (\<lambda>u. map_option depth (map_of discovered u) = Some d) toProcess
      in if currentLevelUrls = [] then Inr discovered
         else
           (case extractLinksFromPages lib opts w currentLevelUrls (d + 1) of
              Inl e \<Rightarrow> Inl e
            | Inr newUrls \<Rightarrow>
                (let st = fold (addNew lib opts) newUrls (discovered, toProcess)
                 in discoverLoop lib opts w n (d + 1) (fst st) (snd st))))"

definition discoverUrlsRecursively ::
  "'u UrlLib \<Rightarrow> Options \<Rightarrow> World \<Rightarrow> SitemapUrl list \<Rightarrow> thrown + DiscoveredUrl list" where
  "discoverUrlsRecursively lib opts w initialUrls =
     (if \<not> enableRecursiveDiscovery opts then
        Inr (map (\<lambda>e. \<lparr> d_url = loc e, depth = 0, parentUrl = None, discoveryMethod = sitemap,
                         d_lastmod = truthy (lastmod e) \<rparr>) initialUrls)
      else
        (let st = fold (addInitial lib opts) initialUrls ([], [])
         in case discoverLoop lib opts w (nat (maxRecursiveDepth opts)) 0 (fst st) (snd st) of
              Inl e \<Rightarrow> Inl e
            | Inr discovered \<Rightarrow> Inr (map snd discovered)))"

section \<open>Sorting\<close>

text \<open>
  \<^verbatim>\<open>Array.prototype.sort\<close> is stable; a comparator's NaN counts as 0. The model is the
  stable insertion sort, which is what every stable sort computes for a consistent
  comparator. \<^verbatim>\<open>compareUrls\<close> is not consistent when a \<^verbatim>\<open>lastmod\<close> does not parse as a
  date (such an entry compares equal to every dated one): the order the engine returns
  then depends on its algorithm and need not be the model's. Only the length and the
  elements of the sorted list are used below, never the order for such input.
\<close>

fun insertBy :: "('a \<Rightarrow> 'a \<Rightarrow> int) \<Rightarrow> 'a \<Rightarrow> 'a list \<Rightarrow> 'a list" where
  "insertBy cmp x [] = [x]"
| "insertBy cmp x (y # ys) = (if cmp x y \<le> 0 then x # y # ys else y # insertBy cmp x ys)"

definition sortBy :: "('a \<Rightarrow> 'a \<Rightarrow> int) \<Rightarrow> 'a list \<Rightarrow> 'a list" where
  "sortBy cmp xs = foldr (insertBy cmp) xs []"

definition compareUrls :: "World \<Rightarrow> SitemapUrl \<Rightarrow> SitemapUrl \<Rightarrow> int" where
  "compareUrls w a b =
     (case (truthy (lastmod a), truthy (lastmod b)) of
        (Some la, Some lb) \<Rightarrow>
          (case (parseDate w la, parseDate w lb) of
             (Some ta, Some tb) \<Rightarrow>
               if ta \<noteq> tb then tb - ta else localeCompare w (loc a) (loc b)
           | _ \<Rightarrow> 0)
      | (Some la, None) \<Rightarrow> - 1
      | (None, Some lb) \<Rightarrow> 1
      | (None, None) \<Rightarrow> localeCompare w (loc a) (loc b))"

definition sortUrls :: "World \<Rightarrow> SitemapUrl list \<Rightarrow> SitemapUrl list" where
  "sortUrls w urls = sortBy (compareUrls w) urls"

definition toSitemapUrl :: "DiscoveredUrl \<Rightarrow> SitemapUrl" where
  "toSitemapUrl d = \<lparr> loc = d_url d, lastmod = truthy (d_lastmod d) \<rparr>"

section \<open>The crawl worker pool, by its result\<close>

text \<open>
  What \<^verbatim>\<open>crawlPages\<close> returns: no worker is started for a concurrency of 0 or less, an
  entry without a \<^verbatim>\<open>loc\<close> is passed over, and \<^verbatim>\<open>filter(Boolean)\<close> closes the gaps.
  The section on the pool's runs shows that every run of the workers ends with this list.
\<close>

definition crawlPages :: "Options \<Rightarrow> World \<Rightarrow> SitemapUrl list \<Rightarrow> PageResult list" where
  "crawlPages opts w urls =
     (if concurrency opts \<le> 0 then []
      else map (\<lambda>e. crawlSinglePage opts w (loc e) (lastmod e))
             (filter (\<lambda>e. loc e \<noteq> []) urls))"

section \<open>Content filtering (\<^verbatim>\<open>content-filter.ts\<close>)\<close>

text \<open>\<^verbatim>\<open>toLowerCase\<close> on the code units below 256: A to Z and the capitals of Latin-1.\<close>

definition lowerChar :: "char \<Rightarrow> char" where
  "lowerChar c =
     (let n = (of_char c :: nat)
      in if (65 \<le> n \<and> n \<le> 90) \<or> (192 \<le> n \<and> n \<le> 222 \<and> n \<noteq> 215) then char_of (n + 32) else c)"

definition toLowerCase :: "string \<Rightarrow> string" where
  "toLowerCase s = map lowerChar s"

text \<open>
  A categorized page is the page and four more fields. The relevance score is a
  double in the source and a rational here; it only orders the pages.
\<close>

record CategorizedPageResult =
  page :: PageResult
  category :: string
  categoryPriority :: int
  relevanceScore :: rat
  matchedKeywords :: "string list"

definition searchText :: "PageResult \<Rightarrow> string" where
  "searchText p = toLowerCase (title p @ '' '' @ content p)"

fun contentScore :: "World \<Rightarrow> string \<Rightarrow> string list \<Rightarrow> thrown + nat" where
  "contentScore w c [] = Inr 0"
| "contentScore w c (p # ps) =
     (case regexMatchCount w (toLowerCase p) c of
        Inl e \<Rightarrow> Inl e
      | Inr k \<Rightarrow> (case contentScore w c ps of Inl e \<Rightarrow> Inl e | Inr n \<Rightarrow> Inr (k * 2 + n)))"

definition calculateCategoryScore :: "World \<Rightarrow> PageResult \<Rightarrow> ContentCategory \<Rightarrow> thrown + nat" where
  "calculateCategoryScore w p cat =
     (case contentScore w (searchText p) (contentPatterns cat) of
        Inl e \<Rightarrow> Inl e
      | Inr n \<Rightarrow>
          Inr (10 * length (filter (\<lambda>pat. includesStr (toLowerCase (url p)) (toLowerCase pat))
                              (urlPatterns cat)) + n))"

fun bestCategoryLoop ::
  "World \<Rightarrow> PageResult \<Rightarrow> ContentCategory list \<Rightarrow> ContentCategory \<Rightarrow> nat
     \<Rightarrow> thrown + ContentCategory" where
  "bestCategoryLoop w p [] bestCategory bestScore = Inr bestCategory"
| "bestCategoryLoop w p (cat # cats) bestCategory bestScore =
     (if \<not> enabled cat then bestCategoryLoop w p cats bestCategory bestScore
      else
        (case calculateCategoryScore w p cat of
           Inl e \<Rightarrow> Inl e
         | Inr score \<Rightarrow>
             if score > bestScore then bestCategoryLoop w p cats cat score
             else bestCategoryLoop w p cats bestCategory bestScore))"

definition findBestCategory ::
  "ContentFilterConfig \<Rightarrow> World \<Rightarrow> PageResult \<Rightarrow> thrown + ContentCategory" where
  "findBestCategory cfg w p =
     (case (case find (\<lambda>c. c_id c = defaultCategory cfg) (categories cfg) of
              Some c \<Rightarrow> Some c
            | None \<Rightarrow> (case categories cfg of [] \<Rightarrow> None | c # cs \<Rightarrow> Some c)) of
        None \<Rightarrow> Inl (Error ''No categories available for content filtering'')
      | Some bestCategory \<Rightarrow> bestCategoryLoop w p (categories cfg) bestCategory 0)"

definition findMatchedKeywords :: "ContentFilterConfig \<Rightarrow> PageResult \<Rightarrow> string list" where
  "findMatchedKeywords cfg p =
     (case priorityKeywords cfg of
        None \<Rightarrow> []
      | Some ks \<Rightarrow> filter (\<lambda>k. includesStr (searchText p) (toLowerCase k)) ks)"

text \<open>
  The score is a rational number here and a double in the code, where the sum is
  rounded: \<^verbatim>\<open>0.5 + 5 * 0.1\<close> is just below 1 there and 1 here, so two pages the model
  ranks equal the code may rank apart.
\<close>

definition calculateRelevanceScore ::
  "ContentFilterConfig \<Rightarrow> PageResult \<Rightarrow> ContentCategory \<Rightarrow> rat" where
  "calculateRelevanceScore cfg p cat =
     min 1 (1 / 2 + of_nat (length (findMatchedKeywords cfg p)) / 10
            + (if contentLength p > 1000 then 1 / 10 else 0)
            + of_int (c_priority cat) / 100)"

definition categorize ::
  "ContentFilterConfig \<Rightarrow> World \<Rightarrow> PageResult \<Rightarrow> thrown + CategorizedPageResult" where
  "categorize cfg w p =
     (case findBestCategory cfg w p of
        Inl e \<Rightarrow> Inl e
      | Inr cat \<Rightarrow>
          Inr \<lparr> page = p, category = c_id cat, categoryPriority = c_priority cat,
                relevanceScore = calculateRelevanceScore cfg p cat,
                matchedKeywords = findMatchedKeywords cfg p \<rparr>)"

definition shouldIncludePage :: "ContentFilterConfig \<Rightarrow> CategorizedPageResult \<Rightarrow> bool" where
  "shouldIncludePage cfg cp =
     (if (case minContentLength cfg of
            Some m \<Rightarrow> m \<noteq> 0 \<and> int (contentLength (page cp)) < m | None \<Rightarrow> False) then False
      else if (case maxContentLength cfg of
                 Some m \<Rightarrow> m \<noteq> 0 \<and> int (contentLength (page cp)) > m | None \<Rightarrow> False) then False
      else if (case excludeKeywords cfg of
                 Some ks \<Rightarrow> list_ex (\<lambda>k. includesStr (searchText (page cp)) (toLowerCase k)) ks
               | None \<Rightarrow> False) then False
      else (case find (\<lambda>c. c_id c = category cp) (categories cfg) of
              Some c \<Rightarrow> enabled c
            | None \<Rightarrow> False))"

definition comparePriority :: "CategorizedPageResult \<Rightarrow> CategorizedPageResult \<Rightarrow> int" where
  "comparePriority a b =
     (if categoryPriority a \<noteq> categoryPriority b then categoryPriority b - categoryPriority a
      else if relevanceScore a \<noteq> relevanceScore b
        then (if relevanceScore b < relevanceScore a then - 1 else 1)
      else int (contentLength (page b)) - int (contentLength (page a)))"

fun categorizeAll ::
  "ContentFilterConfig \<Rightarrow> World \<Rightarrow> PageResult list \<Rightarrow> thrown + CategorizedPageResult list" where
  "categorizeAll cfg w [] = Inr []"
| "categorizeAll cfg w (p # ps) =
     (case categorize cfg w p of
        Inl e \<Rightarrow> Inl e
      | Inr cp \<Rightarrow> (case categorizeAll cfg w ps of Inl e \<Rightarrow> Inl e | Inr cps \<Rightarrow> Inr (cp # cps)))"

text \<open>\<^verbatim>\<open>ContentFilter.filter\<close>\<close>

definition filterPages ::
  "ContentFilterConfig \<Rightarrow> World \<Rightarrow> PageResult list \<Rightarrow> thrown + CategorizedPageResult list" where
  "filterPages cfg w pages =
     (case categorizeAll cfg w pages of
        Inl e \<Rightarrow> Inl e
      | Inr cps \<Rightarrow> Inr (sortBy comparePriority (filter (shouldIncludePage cfg) cps)))"

text \<open>
  \<^verbatim>\<open>groupByCategory\<close> fills a plain object. A category named like a property that every
  object inherits finds that property in \<^verbatim>\<open>grouped[page.category]\<close>, and the
  \<^verbatim>\<open>push\<close> on it throws.
\<close>

definition objectPrototypeKeys :: "string list" where
  "objectPrototypeKeys =
     [''constructor'', ''hasOwnProperty'', ''isPrototypeOf'', ''propertyIsEnumerable'',
      ''toLocaleString'', ''toString'', ''valueOf'', ''__proto__'', ''__defineGetter__'',
      ''__defineSetter__'', ''__lookupGetter__'', ''__lookupSetter__'']"

fun groupLoop ::
  "CategorizedPageResult list \<Rightarrow> (string \<times> CategorizedPageResult list) list
     \<Rightarrow> thrown + (string \<times> CategorizedPageResult list) list" where
  "groupLoop [] grouped = Inr grouped"
| "groupLoop (cp # cps) grouped =
     (case map_of grouped (category cp) of
        Some ps \<Rightarrow> groupLoop cps (AList.update (category cp) (ps @ [cp]) grouped)
      | None \<Rightarrow>
          if category cp \<in> set objectPrototypeKeys
          then Inl (Error ''grouped[page.category].push is not a function'')
          else groupLoop cps (grouped @ [(category cp, [cp])]))"

definition groupByCategory ::
  "CategorizedPageResult list \<Rightarrow> thrown + (string \<times> CategorizedPageResult list) list" where
  "groupByCategory pages = groupLoop pages []"

text \<open>
  \<^verbatim>\<open>Object.entries\<close> lists the keys that are array indices first, by value, and then
  the others in the order they were added.
\<close>

definition isDigit :: "char \<Rightarrow> bool" where
  "isDigit c = (c \<in> set ''0123456789'')"

definition digitValue :: "char \<Rightarrow> nat" where
  "digitValue c = of_char c - 48"

definition arrayIndex :: "string \<Rightarrow> nat option" where
  "arrayIndex s =
     (if s \<noteq> [] \<and> list_all isDigit s \<and> (length s = 1 \<or> hd s \<noteq> CHR ''0'')
         \<and> fold (\<lambda>c n. 10 * n + digitValue c) s 0 < 4294967295
      then Some (fold (\<lambda>c n. 10 * n + digitValue c) s 0) else None)"

definition objectEntries :: "(string \<times> 'a) list \<Rightarrow> (string \<times> 'a) list" where
  "objectEntries al =
     sortBy (\<lambda>a b. int (the (arrayIndex (fst a))) - int (the (arrayIndex (fst b))))
       (filter (\<lambda>e. arrayIndex (fst e) \<noteq> None) al)
     @ filter (\<lambda>e. arrayIndex (fst e) = None) al"

definition applyCategoryLimits ::
  "ContentFilterConfig \<Rightarrow> CategorizedPageResult list \<Rightarrow> thrown + CategorizedPageResult list" where
  "applyCategoryLimits cfg pages =
     (case groupByCategory pages of
        Inl e \<Rightarrow> Inl e
      | Inr grouped \<Rightarrow>
          Inr (concat (map (\<lambda>entry.
                 slice0 (snd entry)
                   (case find (\<lambda>c. c_id c = fst entry) (categories cfg) of
                      Some c \<Rightarrow> (case c_maxPages c of Some m \<Rightarrow> m
                                 | None \<Rightarrow> int (length (snd entry)))
                    | None \<Rightarrow> int (length (snd entry))))
               (objectEntries grouped))))"

text \<open>
  \<^verbatim>\<open>applyContentFiltering\<close>: anything the filter throws is caught, and the pages go on
  unfiltered.
\<close>

definition applyContentFiltering :: "Options \<Rightarrow> World \<Rightarrow> PageResult list \<Rightarrow> PageResult list" where
  "applyContentFiltering opts w pageResults =
     (case contentFilter opts of
        None \<Rightarrow> pageResults
      | Some cfg \<Rightarrow>
          (case filterPages cfg w pageResults of
             Inl e \<Rightarrow> pageResults
           | Inr categorizedResults \<Rightarrow>
               (case applyCategoryLimits cfg categorizedResults of
                  Inl e \<Rightarrow> pageResults
                | Inr limitedResults \<Rightarrow> map page limitedResults)))"

section \<open>The assembler's character limits\<close>

text \<open>
  The marker prints the limit as a decimal numeral; the template literal prints a
  limit of \<open>10\<^sup>2\<^sup>1\<close> or more in exponent form. Only the marker's text differs there.
\<close>

definition truncationMarker :: "int \<Rightarrow> string" where
  "truncationMarker m = [CHR 0x0A, CHR 0x0A] @ ''[TRUNCATED at '' @ showInt m @ '' chars]''"

definition truncatePage :: "Options \<Rightarrow> PageResult \<Rightarrow> PageResult" where
  "truncatePage opts result =
     (if int (length (content result)) > maxCharsPerPage opts then
        result\<lparr> content := substring0 (content result) (maxCharsPerPage opts)
                              @ truncationMarker (maxCharsPerPage opts),
                truncated := Some True,
                originalLength := Some (length (content result)) \<rparr>
      else result)"

text \<open>
  The loop of \<^verbatim>\<open>applyCharacterLimits\<close>, with \<open>totalChars\<close>, \<open>processedResults\<close> and the
  statistics as its state. The budget is tested before a page is added.
\<close>

fun applyLimitsLoop ::
  "Options \<Rightarrow> PageResult list \<Rightarrow> int \<Rightarrow> PageResult list \<Rightarrow> GenerationStats
     \<Rightarrow> PageResult list \<times> GenerationStats" where
  "applyLimitsLoop opts [] totalChars processedResults stats = (processedResults, stats)"
| "applyLimitsLoop opts (result # rest) totalChars processedResults stats =
     (if totalChars \<ge> maxTotalChars opts then
        (processedResults, stats\<lparr> globalLimitReached := True \<rparr>)
      else
        (let processedResult = truncatePage opts result;
             stats' = (if int (length (content result)) > maxCharsPerPage opts
                       then stats\<lparr> truncatedPages := truncatedPages stats + 1 \<rparr> else stats)
         in applyLimitsLoop opts rest (totalChars + int (length (content processedResult)))
              (processedResults @ [processedResult]) stats'))"

definition applyCharacterLimits ::
  "Options \<Rightarrow> PageResult list \<Rightarrow> GenerationStats \<Rightarrow> PageResult list \<times> GenerationStats" where
  "applyCharacterLimits opts pageResults stats = applyLimitsLoop opts pageResults 0 [] stats"

definition createInitialStats :: GenerationStats where
  "createInitialStats = \<lparr> truncatedPages = 0, globalLimitReached = False \<rparr>"

section \<open>The run\<close>

text \<open>
  \<^verbatim>\<open>generate\<close> up to \<^verbatim>\<open>processedResults\<close> and the statistics the assembler writes;
  the document is rendered from these pages. File-system discovery is left out: its
  result is only logged.
\<close>

definition crawlInput ::
  "'u UrlLib \<Rightarrow> Options \<Rightarrow> World \<Rightarrow> SitemapUrl list \<Rightarrow> thrown + SitemapUrl list" where
  "crawlInput lib opts w urls =
     (case discoverUrlsRecursively lib opts w (filterUrls opts urls) of
        Inl e \<Rightarrow> Inl e
      | Inr discoveredUrls \<Rightarrow> Inr (sortUrls w (map toSitemapUrl discoveredUrls)))"

definition generate ::
  "'u UrlLib \<Rightarrow> Options \<Rightarrow> World \<Rightarrow> thrown + PageResult list \<times> GenerationStats" where
  "generate lib options w =
     (let opts = applyFormatLimits options
      in case extractUrls lib opts w of
           Inl e \<Rightarrow> Inl e
         | Inr urls \<Rightarrow>
             (case crawlInput lib opts w urls of
                Inl e \<Rightarrow> Inl e
              | Inr sortedUrls \<Rightarrow>
                  Inr (applyCharacterLimits opts
                         (applyContentFiltering opts w (crawlPages opts w sortedUrls))
                         createInitialStats)))"

section \<open>The crawl worker pool, by its runs\<close>

text \<open>
  The workers of \<^verbatim>\<open>crawlPages\<close> share \<^verbatim>\<open>currentIndex\<close> and \<^verbatim>\<open>results\<close>. A worker
  runs without interruption from one \<^verbatim>\<open>await\<close> to the next, so a run is a sequence of
  these steps, taken by the workers in any order:
  \<^item> \<open>claim\<close>: a worker at the head of its loop takes the next index and starts the crawl
    of that entry;
  \<^item> \<open>pass\<close>: it takes the next index, finds no \<^verbatim>\<open>loc\<close> there and goes round
    (\<^verbatim>\<open>continue\<close>);
  \<^item> \<open>complete\<close>: a crawl that was awaited ends and its result is stored at the index;
  \<^item> \<open>finish\<close>: a worker at the head of its loop finds no index left and returns.

  \<open>claimed\<close> records the indices in the order they were taken. \<^verbatim>\<open>crawlSinglePage\<close>
  catches everything it throws, so the \<^verbatim>\<open>catch\<close> of the worker is never entered.
\<close>

datatype worker = Ready | Awaiting nat | Finished

record pool =
  currentIndex :: nat
  results :: "nat \<Rightarrow> PageResult option"
  workers :: "worker list"
  claimed :: "nat list"

inductive poolStep :: "Options \<Rightarrow> World \<Rightarrow> SitemapUrl list \<Rightarrow> pool \<Rightarrow> pool \<Rightarrow> bool"
  for opts :: Options and w :: World and us :: "SitemapUrl list" where
  claim:
    "k < length (workers s) \<Longrightarrow> workers s ! k = Ready \<Longrightarrow> currentIndex s < length us \<Longrightarrow>
     loc (us ! currentIndex s) \<noteq> [] \<Longrightarrow>
     poolStep opts w us s
       (s\<lparr> currentIndex := currentIndex s + 1,
           workers := (workers s)[k := Awaiting (currentIndex s)],
           claimed := claimed s @ [currentIndex s] \<rparr>)"
| pass:
    "k < length (workers s) \<Longrightarrow> workers s ! k = Ready \<Longrightarrow> currentIndex s < length us \<Longrightarrow>
     loc (us ! currentIndex s) = [] \<Longrightarrow>
     poolStep opts w us s (s\<lparr> currentIndex := currentIndex s + 1 \<rparr>)"
| complete:
    "k < length (workers s) \<Longrightarrow> workers s ! k = Awaiting i \<Longrightarrow>
     poolStep opts w us s
       (s\<lparr> results := (results s)(i \<mapsto> crawlSinglePage opts w (loc (us ! i)) (lastmod (us ! i))),
           workers := (workers s)[k := Ready] \<rparr>)"
| finish:
    "k < length (workers s) \<Longrightarrow> workers s ! k = Ready \<Longrightarrow> \<not> currentIndex s < length us \<Longrightarrow>
     poolStep opts w us s (s\<lparr> workers := (workers s)[k := Finished] \<rparr>)"




section \<open>The extraction fallback chain\<close>

text \<open>
  The five extraction methods work on a JSDOM document through Readability and
  Turndown; they are parameters here, each a function from the document and the URL to
  what it returns or throws and the document it leaves behind (Readability and the raw
  text method change it). \<open>documentTitle\<close> is \<^verbatim>\<open>document.title\<close>.
\<close>

record TitleContent =
  tc_title :: string
  tc_content :: string

record 'd Extractors =
  extractWithReadability :: "'d \<Rightarrow> string \<Rightarrow> (thrown + TitleContent) \<times> 'd"
  extractWithSemanticSelectors :: "'d \<Rightarrow> string \<Rightarrow> (thrown + TitleContent) \<times> 'd"
  extractWithContentSelectors :: "'d \<Rightarrow> string \<Rightarrow> (thrown + TitleContent) \<times> 'd"
  extractWithMetadata :: "'d \<Rightarrow> string \<Rightarrow> (thrown + TitleContent) \<times> 'd"
  extractRawText :: "'d \<Rightarrow> string \<Rightarrow> (thrown + TitleContent) \<times> 'd"
  documentTitle :: "'d \<Rightarrow> string"

definition extractionMethods ::
  "'d Extractors \<Rightarrow> ('d \<Rightarrow> string \<Rightarrow> (thrown + TitleContent) \<times> 'd) list" where
  "extractionMethods x =
     [extractWithReadability x, extractWithSemanticSelectors x, extractWithContentSelectors x,
      extractWithMetadata x, extractRawText x]"

text \<open>\<^verbatim>\<open>result.content && result.content.trim().length > 50\<close>\<close>

definition accepted :: "TitleContent \<Rightarrow> bool" where
  "accepted r = (tc_content r \<noteq> [] \<and> length (trim (tc_content r)) > 50)"

text \<open>
  The \<^verbatim>\<open>for\<close> loop over the methods: the first accepted result is returned, a method
  that throws or whose result is not accepted is passed over.
\<close>

fun tryMethods ::
  "('d \<Rightarrow> string \<Rightarrow> (thrown + TitleContent) \<times> 'd) list \<Rightarrow> 'd \<Rightarrow> string
     \<Rightarrow> TitleContent option \<times> 'd" where
  "tryMethods [] d u = (None, d)"
| "tryMethods (m # ms) d u =
     (case fst (m d u) of
        Inr r \<Rightarrow> if accepted r then (Some r, snd (m d u)) else tryMethods ms (snd (m d u)) u
      | Inl e \<Rightarrow> tryMethods ms (snd (m d u)) u)"

definition noContent :: string where
  "noContent = ''No content could be extracted from this page.''"

definition extractContentWithFallbacks :: "'d Extractors \<Rightarrow> 'd \<Rightarrow> string \<Rightarrow> TitleContent" where
  "extractContentWithFallbacks x d u =
     (case tryMethods (extractionMethods x) d u of
        (Some r, d') \<Rightarrow> r
      | (None, d') \<Rightarrow>
          \<lparr> tc_title = (if documentTitle x d' = [] then u else documentTitle x d'),
            tc_content = noContent \<rparr>)"

section \<open>An example site\<close>

text \<open>
  The options of a user who sets only \<^verbatim>\<open>siteUrl\<close>, as \<^verbatim>\<open>mergeWithDefaults\<close> fills
  them in, and the same with an empty \<^verbatim>\<open>formatLimits\<close> object.
\<close>

definition defaultOptions :: "string \<Rightarrow> Options" where
  "defaultOptions site =
     \<lparr> siteUrl = site, sitemapUrl = site @ ''/sitemap.xml'', maxPages = 5000, concurrency = 5,
       includePatterns = [], excludePatterns = [], maxCharsPerPage = 200000,
       maxTotalChars = 50000000, keepQueryParams = [], contentTransformer = (\<lambda>c u. Inr c),
       enableRecursiveDiscovery = False, maxRecursiveDepth = 3, maxLinksPerPage = 50,
       outputFormat = full, formatLimits = defaultFormatLimits, contentFilter = None \<rparr>"

definition plainOptions :: "string \<Rightarrow> Options" where
  "plainOptions site = (defaultOptions site)\<lparr> formatLimits := (\<lambda>f. None) \<rparr>"

text \<open>
  A URL library for the examples. It reads \<^verbatim>\<open>https://host/path?query#fragment\<close> and
  nothing else, a URL object is its own serialisation, and no query parameter is read.
\<close>

definition exampleLib :: "string UrlLib" where
  "exampleLib =
     \<lparr> url_parse = (\<lambda>s. if startsWith s ''https://''
                          then Some (if CHR ''/'' \<in> set (drop 8 s) then s else s @ ''/'')
                          else None),
       url_toString = (\<lambda>x. x),
       url_hostname = (\<lambda>x. takeWhile (\<lambda>c. c \<noteq> CHR ''/'') (drop 8 x)),
       url_set_hash = (\<lambda>x h. takeWhile (\<lambda>c. c \<noteq> CHR ''#'') x
                               @ (if h = [] then [] else CHR ''#'' # h)),
       url_set_search = (\<lambda>x q. takeWhile (\<lambda>c. c \<noteq> CHR ''?'' \<and> c \<noteq> CHR ''#'') x
                                 @ (if q = [] then [] else CHR ''?'' # q)
                                 @ dropWhile (\<lambda>c. c \<noteq> CHR ''#'') x),
       searchParams_get = (\<lambda>x k. None),
       usp_toString = (\<lambda>ps. []) \<rparr>"

text \<open>
  The site \<^verbatim>\<open>https://example.com\<close>: its sitemap lists the page \<^verbatim>\<open>/a\<close> and the file
  \<^verbatim>\<open>/report.pdf\<close>; \<^verbatim>\<open>/a\<close> links to \<^verbatim>\<open>/b\<close> and \<^verbatim>\<open>/c#top\<close>; \<^verbatim>\<open>/missing\<close> answers
  404 to every request; every other page is eight characters of HTML.
\<close>

definition exampleSitemap :: string where
  "exampleSitemap =
     ''<urlset><url><loc>https://example.com/a</loc><lastmod>2024-01-02</lastmod></url>''
     @ ''<url><loc>https://example.com/report.pdf</loc></url></urlset>''"

definition notFound :: Response where
  "notFound = \<lparr> status = 404, statusText = ''Not Found'', contentType = Some ''text/html'',
                 body = Inr ''<html></html>'' \<rparr>"

definition exampleNet :: "string \<Rightarrow> nat \<Rightarrow> fetch_result" where
  "exampleNet u k =
     (if u = ''https://example.com/sitemap.xml''
      then Resolved \<lparr> status = 200, statusText = ''OK'', contentType = Some ''application/xml'',
                       body = Inr exampleSitemap \<rparr>
      else if u = ''https://example.com/report.pdf''
      then Resolved \<lparr> status = 200, statusText = ''OK'', contentType = Some ''application/pdf'',
                       body = Inr ''%PDF'' \<rparr>
      else if u = ''https://example.com/missing'' then Resolved notFound
      else Resolved \<lparr> status = 200, statusText = ''OK'', contentType = Some ''text/html'',
                       body = Inr ''12345678'' \<rparr>)"

definition exampleWorld :: World where
  "exampleWorld =
     \<lparr> net = exampleNet,
       now = (\<lambda>u. 0),
       extractContent = (\<lambda>u html. Inr \<lparr> e_title = ''Title'', e_content = html,
                                           e_language = None \<rparr>),
       anchorHrefs = (\<lambda>u html. Inr (if u = ''https://example.com/a''
                                       then [Some ''https://example.com/b'',
                                             Some ''https://example.com/c#top'']
                                       else [])),
       parseDate = (\<lambda>s. None),
       localeCompare = (\<lambda>a b. 0),
       regexMatchCount = (\<lambda>p s. Inr 0) \<rparr>"

text \<open>
  A second site, whose sitemap is an index. \<^verbatim>\<open>/sitemap.xml\<close> lists the children
  \<^verbatim>\<open>/pages.xml\<close> and \<^verbatim>\<open>/posts.xml\<close>; \<^verbatim>\<open>/pages.xml\<close> lists the page \<^verbatim>\<open>/a\<close> and a page of
  the host \<^verbatim>\<open>www.example.com\<close>, \<^verbatim>\<open>/posts.xml\<close> lists the page \<^verbatim>\<open>/b\<close>. \<^verbatim>\<open>/sitemap2.xml\<close> lists
  \<^verbatim>\<open>/posts.xml\<close> and \<^verbatim>\<open>/feeds.xml\<close>, and \<^verbatim>\<open>/feeds.xml\<close> lists the page \<^verbatim>\<open>/c\<close> and the
  feed \<^verbatim>\<open>/rss.xml\<close>.
\<close>

definition indexXml :: string where
  "indexXml =
     ''<sitemapindex><sitemap><loc>https://example.com/pages.xml</loc></sitemap>''
     @ ''<sitemap><loc>https://example.com/posts.xml</loc></sitemap></sitemapindex>''"

definition index2Xml :: string where
  "index2Xml =
     ''<sitemapindex><sitemap><loc>https://example.com/posts.xml</loc></sitemap>''
     @ ''<sitemap><loc>https://example.com/feeds.xml</loc></sitemap></sitemapindex>''"

definition pagesXml :: string where
  "pagesXml =
     ''<urlset><url><loc>https://example.com/a</loc></url>''
     @ ''<url><loc>https://www.example.com/x</loc></url></urlset>''"

definition postsXml :: string where
  "postsXml = ''<urlset><url><loc>https://example.com/b</loc></url></urlset>''"

definition feedsXml :: string where
  "feedsXml =
     ''<urlset><url><loc>https://example.com/c</loc></url>''
     @ ''<url><loc>https://example.com/rss.xml</loc></url></urlset>''"

definition xmlResponse :: "string \<Rightarrow> Response" where
  "xmlResponse xml = \<lparr> status = 200, statusText = ''OK'', contentType = Some ''application/xml'',
                        body = Inr xml \<rparr>"

definition indexNet :: "string \<Rightarrow> nat \<Rightarrow> fetch_result" where
  "indexNet u k =
     (if u = ''https://example.com/sitemap.xml'' then Resolved (xmlResponse indexXml)
      else if u = ''https://example.com/sitemap2.xml'' then Resolved (xmlResponse index2Xml)
      else if u = ''https://example.com/pages.xml'' then Resolved (xmlResponse pagesXml)
      else if u = ''https://example.com/posts.xml'' then Resolved (xmlResponse postsXml)
      else if u = ''https://example.com/feeds.xml'' then Resolved (xmlResponse feedsXml)
      else Resolved notFound)"

definition indexWorld :: World where
  "indexWorld = exampleWorld\<lparr> net := indexNet \<rparr>"

definition index2Options :: Options where
  "index2Options =
     (plainOptions ''https://example.com'')\<lparr> sitemapUrl := ''https://example.com/sitemap2.xml'' \<rparr>"

text \<open>A page as \<^verbatim>\<open>crawlSinglePage\<close> builds it from a successful crawl.\<close>

definition examplePage :: "string \<Rightarrow> string \<Rightarrow> PageResult" where
  "examplePage u c =
     \<lparr> url = u, title = ''Title'', content = c, success = True, error = None, timestamp = 0,
       contentLength = length c, p_lastmod = None, language = None, statusCode = Some 200,
       skipReason = None, truncated = Some False, originalLength = Some (length c) \<rparr>"

text \<open>
  The options of four runs on the example site: the defaults with a page limit of 1; no
  format limits and a per-page limit of 3 characters; no format limits, a page limit
  of 1 and recursive discovery; no format limits and a total budget of 10 characters.
\<close>

definition limitedOptions :: Options where
  "limitedOptions = (defaultOptions ''https://example.com'')\<lparr> maxPages := 1 \<rparr>"

definition truncatingOptions :: Options where
  "truncatingOptions = (plainOptions ''https://example.com'')\<lparr> maxCharsPerPage := 3 \<rparr>"

definition recursiveOptions :: Options where
  "recursiveOptions =
     (plainOptions ''https://example.com'')\<lparr> enableRecursiveDiscovery := True, maxPages := 1 \<rparr>"

definition budgetOptions :: Options where
  "budgetOptions = (plainOptions ''https://example.com'')\<lparr> maxTotalChars := 10 \<rparr>"

text \<open>The options of a run whose include pattern matches no URL of the sitemap.\<close>

definition unmatchedOptions :: Options where
  "unmatchedOptions =
     (plainOptions ''https://example.com'')\<lparr> includePatterns := [StringPattern ''/docs/''] \<rparr>"

text \<open>The pages these runs end with.\<close>

definition pageA :: PageResult where
  "pageA = (examplePage ''https://example.com/a'' ''12345678'')\<lparr> p_lastmod := Some ''2024-01-02'' \<rparr>"

definition pageB :: PageResult where
  "pageB = examplePage ''https://example.com/b'' ''12345678''"

definition pageC :: PageResult where
  "pageC = examplePage ''https://example.com/c'' ''12345678''"

definition reportSkipped :: PageResult where
  "reportSkipped =
     skipped ''https://example.com/report.pdf'' None 0 ''No content extracted.''
       ''Non-HTML content type'' 200 ''content-type''"

definition pageATruncated :: PageResult where
  "pageATruncated = pageA\<lparr> content := ''123'' @ truncationMarker 3, truncated := Some True \<rparr>"

definition reportTruncated :: PageResult where
  "reportTruncated =
     reportSkipped\<lparr> content := ''No '' @ truncationMarker 3, truncated := Some True,
                    originalLength := Some 21 \<rparr>"

section \<open>What the specification calls clamped\<close>

text \<open>
  The content of \<open>p\<close> is the content of \<open>q\<close> cut to the per-page limit, with the
  truncation marker appended, and the content of \<open>q\<close> was longer than the limit.
\<close>

definition clamped :: "Options \<Rightarrow> PageResult \<Rightarrow> PageResult \<Rightarrow> bool" where
  "clamped opts q p =
     (int (length (content q)) > maxCharsPerPage opts
      \<and> content p = substring0 (content q) (maxCharsPerPage opts)
                      @ truncationMarker (maxCharsPerPage opts))"

section \<open>The pool's invariant and its measure\<close>







section \<open>The fallback chain, as the specification words it\<close>

text \<open>
  \<open>outcomes ms d u\<close> is what each method of \<open>ms\<close> returns or throws when the methods
  run one after the other on the document the ones before have left, and
  \<open>documentAfter ms d u\<close> is the document they leave. A method succeeds when it returns
  a result that is accepted.
\<close>

fun outcomes ::
  "('d \<Rightarrow> string \<Rightarrow> (thrown + TitleContent) \<times> 'd) list \<Rightarrow> 'd \<Rightarrow> string
     \<Rightarrow> (thrown + TitleContent) list" where
  "outcomes [] d u = []"
| "outcomes (m # ms) d u = fst (m d u) # outcomes ms (snd (m d u)) u"

fun documentAfter ::
  "('d \<Rightarrow> string \<Rightarrow> (thrown + TitleContent) \<times> 'd) list \<Rightarrow> 'd \<Rightarrow> string \<Rightarrow> 'd" where
  "documentAfter [] d u = d"
| "documentAfter (m # ms) d u = documentAfter ms (snd (m d u)) u"

definition succeeded :: "thrown + TitleContent \<Rightarrow> bool" where
  "succeeded x = (case x of Inr r \<Rightarrow> accepted r | Inl e \<Rightarrow> False)"

text \<open>
  Extraction methods for the examples, on documents that are nothing but their title.
  In the first, Readability throws, the semantic and the content selectors both find
  more than 50 characters, and the last two methods throw. In the second every method
  throws.
\<close>

definition exampleExtractors :: "string Extractors" where
  "exampleExtractors =
     \<lparr> extractWithReadability = (\<lambda>d u. (Inl (Error ''Readability failed to parse content''), d)),
       extractWithSemanticSelectors =
         (\<lambda>d u. (Inr \<lparr> tc_title = d,
                         tc_content = ''Semantic: the text of the main element of this page.'' \<rparr>, d)),
       extractWithContentSelectors =
         (\<lambda>d u. (Inr \<lparr> tc_title = d,
                         tc_content = ''Content: the text of the markdown body of this page.'' \<rparr>, d)),
       extractWithMetadata = (\<lambda>d u. (Inl (Error ''Insufficient metadata content''), d)),
       extractRawText = (\<lambda>d u. (Inl (Error ''Insufficient text content''), d)),
       documentTitle = (\<lambda>d. d) \<rparr>"

definition failingExtractors :: "string Extractors" where
  "failingExtractors =
     \<lparr> extractWithReadability = (\<lambda>d u. (Inl (Error ''Readability failed to parse content''), d)),
       extractWithSemanticSelectors = (\<lambda>d u. (Inl (Error ''No semantic content found''), d)),
       extractWithContentSelectors = (\<lambda>d u. (Inl (Error ''No content selectors matched''), d)),
       extractWithMetadata = (\<lambda>d u. (Inl (Error ''Insufficient metadata content''), d)),
       extractRawText = (\<lambda>d u. (Inl (Error ''Insufficient text content''), d)),
       documentTitle = (\<lambda>d. d) \<rparr>"

subsection \<open>A URL library of four URLs\<close>

text \<open>
  The URLs of one page, \<^verbatim>\<open>https://example.com/\<close>, with or without the query
  \<^verbatim>\<open>?id=1\<close> and with or without the fragment \<^verbatim>\<open>#top\<close>; nothing else parses. A URL
  object is the pair of the two flags.
\<close>

definition fourUrlLib :: "(bool \<times> bool) UrlLib" where
  "fourUrlLib =
     \<lparr> url_parse = (\<lambda>s. if s = ''https://example.com/'' then Some (False, False)
                          else if s = ''https://example.com/?id=1'' then Some (True, False)
                          else if s = ''https://example.com/#top'' then Some (False, True)
                          else if s = ''https://example.com/?id=1#top'' then Some (True, True)
                          else None),
       url_toString = (\<lambda>x. ''https://example.com/'' @ (if fst x then ''?id=1'' else [])
                                @ (if snd x then ''#top'' else [])),
       url_hostname = (\<lambda>x. ''example.com''),
       url_set_hash = (\<lambda>x h. (fst x, h \<noteq> [])),
       url_set_search = (\<lambda>x q. (q \<noteq> [], snd x)),
       searchParams_get = (\<lambda>x k. if fst x \<and> k = ''id'' then Some ''1'' else None),
       usp_toString = (\<lambda>ps. if ps = [] then [] else ''id=1'') \<rparr>"

definition idOptions :: Options where
  "idOptions = (plainOptions ''https://example.com'')\<lparr> keepQueryParams := [''id''] \<rparr>"

section \<open>Lemmas: the fetcher and the crawl of one page\<close>

lemmas fetch_eval =
  fetchWithRetry_def fetchLoop.simps tryFetch_def ok_def showNat.simps digitChar_def

lemma tryFetch_ok: "tryFetch u r = Inr response \<Longrightarrow> ok response"
  by (auto simp: tryFetch_def split: fetch_result.splits if_splits)

lemma fetchLoop_ok: "fst (fetchLoop n u retries attempt evs) = Inr response \<Longrightarrow> ok response"
proof (induction n u retries attempt evs rule: fetchLoop.induct)
  case (1 n u retries attempt evs)
  show ?case
  proof (cases "tryFetch u (n attempt)")
    case (Inr r)
    with "1.prems" show ?thesis
      by (subst (asm) fetchLoop.simps) (auto split: if_splits dest: tryFetch_ok)
  next
    case (Inl e)
    with "1.prems" "1.IH" show ?thesis
      by (subst (asm) fetchLoop.simps) (auto split: if_splits)
  qed
qed

lemma fetchWithRetry_ok: "fst (fetchWithRetry n u) = Inr response \<Longrightarrow> ok response"
  unfolding fetchWithRetry_def by (rule fetchLoop_ok)

lemma crawlSinglePage_shape:
  "url (crawlSinglePage opts w u lm) = u
   \<and> truncated (crawlSinglePage opts w u lm) = Some False
   \<and> (if success (crawlSinglePage opts w u lm)
      then contentLength (crawlSinglePage opts w u lm)
             = length (content (crawlSinglePage opts w u lm))
           \<and> originalLength (crawlSinglePage opts w u lm)
             = Some (length (content (crawlSinglePage opts w u lm)))
      else contentLength (crawlSinglePage opts w u lm) = 0)"
proof -
  define P where "P q \<longleftrightarrow>
      url q = u \<and> truncated q = Some False
      \<and> (if success q then contentLength q = length (content q)
                           \<and> originalLength q = Some (length (content q))
         else contentLength q = 0)" for q :: PageResult
  have sk: "P (skipped u lm t c e st r)" for t c e st r
    by (simp add: P_def skipped_def)
  have "P (crawlSinglePage opts w u lm)"
    unfolding crawlSinglePage_def Let_def crawlFailed_def
    by (simp add: sk split: sum.splits) (simp add: P_def)
  then show ?thesis by (simp add: P_def)
qed


lemma crawlSinglePage_truncated: "truncated (crawlSinglePage opts w u lm) = Some False"
  using crawlSinglePage_shape [of opts w u lm] by simp

lemma crawlSinglePage_success:
  "success (crawlSinglePage opts w u lm) \<Longrightarrow>
   contentLength (crawlSinglePage opts w u lm) = length (content (crawlSinglePage opts w u lm))
   \<and> originalLength (crawlSinglePage opts w u lm)
       = Some (length (content (crawlSinglePage opts w u lm)))"
  using crawlSinglePage_shape [of opts w u lm] by simp

lemma crawlSinglePage_failed:
  "\<not> success (crawlSinglePage opts w u lm) \<Longrightarrow> contentLength (crawlSinglePage opts w u lm) = 0"
  using crawlSinglePage_shape [of opts w u lm] by simp

lemma crawlSinglePage_contentLength_le:
  "contentLength (crawlSinglePage opts w u lm) \<le> length (content (crawlSinglePage opts w u lm))"
  using crawlSinglePage_shape [of opts w u lm] by (simp split: if_splits)

lemma crawlPages_elem:
  "q \<in> set (crawlPages opts w us) \<Longrightarrow>
   \<exists>e. e \<in> set us \<and> q = crawlSinglePage opts w (loc e) (lastmod e)"
  by (auto simp: crawlPages_def split: if_splits)

section \<open>Lemmas: the character limits\<close>

text \<open>The assembler keeps a prefix of the pages, each through \<open>truncatePage\<close>.\<close>

lemma applyLimitsLoop_prefix:
  "\<exists>k. k \<le> length pages \<and>
       fst (applyLimitsLoop opts pages t acc st) = acc @ map (truncatePage opts) (take k pages)"
proof (induction pages arbitrary: t acc st)
  case Nil
  then show ?case by simp
next
  case (Cons p pages)
  show ?case
  proof (cases "t \<ge> maxTotalChars opts")
    case True
    then have "fst (applyLimitsLoop opts (p # pages) t acc st)
                 = acc @ map (truncatePage opts) (take 0 (p # pages))"
      by simp
    then show ?thesis by blast
  next
    case False
    from Cons.IH obtain k where k: "k \<le> length pages"
      "fst (applyLimitsLoop opts pages (t + int (length (content (truncatePage opts p))))
              (acc @ [truncatePage opts p])
              (if int (length (content p)) > maxCharsPerPage opts
               then st\<lparr> truncatedPages := truncatedPages st + 1 \<rparr> else st))
         = (acc @ [truncatePage opts p]) @ map (truncatePage opts) (take k pages)"
      by blast
    with False have "fst (applyLimitsLoop opts (p # pages) t acc st)
                 = acc @ map (truncatePage opts) (take (Suc k) (p # pages))"
      by (simp add: Let_def)
    with k(1) show ?thesis by (metis Suc_le_mono length_Cons)
  qed
qed

lemma applyCharacterLimits_elem:
  assumes "p \<in> set (fst (applyCharacterLimits opts pages st))"
  shows "\<exists>q. q \<in> set pages \<and> p = truncatePage opts q"
proof -
  obtain k where "fst (applyCharacterLimits opts pages st) = map (truncatePage opts) (take k pages)"
    using applyLimitsLoop_prefix [of pages opts 0 "[]" st]
    by (auto simp: applyCharacterLimits_def)
  with assms show ?thesis by (auto dest: in_set_takeD)
qed

section \<open>Lemmas: sorting and content filtering keep the pages they are given\<close>

lemma set_insertBy: "set (insertBy cmp x ys) = insert x (set ys)"
  by (induction ys) auto

lemma set_sortBy: "set (sortBy cmp xs) = set xs"
  by (induction xs) (auto simp: sortBy_def set_insertBy)

lemma length_insertBy: "length (insertBy cmp x ys) = Suc (length ys)"
  by (induction ys) auto

lemma length_sortBy: "length (sortBy cmp xs) = length xs"
  by (induction xs) (auto simp: sortBy_def length_insertBy)

lemma categorizeAll_pages: "categorizeAll cfg w ps = Inr cps \<Longrightarrow> map page cps = ps"
proof (induction ps arbitrary: cps)
  case Nil
  then show ?case by simp
next
  case (Cons p ps)
  then show ?case
    by (auto simp: categorize_def split: sum.splits)
qed

lemma set_slice0: "set (slice0 xs n) \<subseteq> set xs"
  by (auto simp: slice0_def dest: in_set_takeD)

lemma groupLoop_subset:
  "groupLoop cps g = Inr g' \<Longrightarrow>
   (\<Union>e \<in> set g'. set (snd e)) \<subseteq> set cps \<union> (\<Union>e \<in> set g. set (snd e))"
proof (induction cps arbitrary: g)
  case Nil
  then show ?case by simp
next
  case (Cons cp cps)
  show ?case
  proof (cases "map_of g (category cp)")
    case None
    with Cons.prems have "groupLoop cps (g @ [(category cp, [cp])]) = Inr g'"
      by (simp split: if_splits)
    from Cons.IH [OF this] show ?thesis by auto
  next
    case (Some ps)
    with Cons.prems have st: "groupLoop cps (AList.update (category cp) (ps @ [cp]) g) = Inr g'"
      by simp
    have "set (AList.update (category cp) (ps @ [cp]) g)
            \<subseteq> insert (category cp, ps @ [cp]) (set g)"
      by (induction g) auto
    moreover have "(category cp, ps) \<in> set g"
      using Some by (rule map_of_SomeD)
    ultimately have "(\<Union>e \<in> set (AList.update (category cp) (ps @ [cp]) g). set (snd e))
            \<subseteq> insert cp (\<Union>e \<in> set g. set (snd e))"
      by fastforce
    with Cons.IH [OF st] show ?thesis by auto
  qed
qed

lemma set_objectEntries: "set (objectEntries al) = set al"
  by (auto simp: objectEntries_def set_sortBy)

lemma applyCategoryLimits_subset:
  assumes "applyCategoryLimits cfg cps = Inr out"
  shows "set out \<subseteq> set cps"
proof -
  from assms obtain g where g: "groupByCategory cps = Inr g"
    by (auto simp: applyCategoryLimits_def split: sum.splits)
  from groupLoop_subset [of cps "[]" g] g
  have sub: "(\<Union>e \<in> set g. set (snd e)) \<subseteq> set cps"
    by (simp add: groupByCategory_def)
  show ?thesis
  proof
    fix x assume "x \<in> set out"
    with assms g obtain e where "e \<in> set (objectEntries g)" "x \<in> set (snd e)"
      using set_slice0 by (fastforce simp: applyCategoryLimits_def)
    with sub show "x \<in> set cps" by (auto simp: set_objectEntries)
  qed
qed

lemma applyContentFiltering_subset: "set (applyContentFiltering opts w ps) \<subseteq> set ps"
proof (cases "contentFilter opts")
  case None
  then show ?thesis by (simp add: applyContentFiltering_def)
next
  case (Some cfg)
  show ?thesis
  proof (cases "filterPages cfg w ps")
    case (Inl e)
    with Some show ?thesis by (simp add: applyContentFiltering_def)
  next
    case (Inr cat)
    then obtain cps where cps: "categorizeAll cfg w ps = Inr cps"
      and cat: "cat = sortBy comparePriority (filter (shouldIncludePage cfg) cps)"
      by (auto simp: filterPages_def split: sum.splits)
    show ?thesis
    proof (cases "applyCategoryLimits cfg cat")
      case (Inl e)
      with Some Inr show ?thesis by (simp add: applyContentFiltering_def)
    next
      case lim: (Inr limited)
      from applyCategoryLimits_subset [OF lim] cat have "set limited \<subseteq> set cps"
        by (auto simp: set_sortBy)
      then have "set (map page limited) \<subseteq> set (map page cps)" by auto
      with categorizeAll_pages [OF cps] Some Inr lim show ?thesis
        by (simp add: applyContentFiltering_def)
    qed
  qed
qed

text \<open>Every page of the final processed set is a crawled page, through \<open>truncatePage\<close>.\<close>

lemma generate_elem:
  assumes "generate lib options w = Inr (ps, st)" and "p \<in> set ps"
  shows "\<exists>u lm. p = truncatePage (applyFormatLimits options)
                      (crawlSinglePage (applyFormatLimits options) w u lm)"
proof -
  from assms(1) obtain sorted where
    ps: "ps = fst (applyCharacterLimits (applyFormatLimits options)
                    (applyContentFiltering (applyFormatLimits options) w
                       (crawlPages (applyFormatLimits options) w sorted))
                    createInitialStats)"
    by (auto simp: generate_def Let_def split: sum.splits) (metis fst_conv)
  from applyCharacterLimits_elem [OF assms(2) [unfolded ps]]
  obtain q where q: "q \<in> set (applyContentFiltering (applyFormatLimits options) w
                                (crawlPages (applyFormatLimits options) w sorted))"
    and p: "p = truncatePage (applyFormatLimits options) q"
    by blast
  from q applyContentFiltering_subset
  have "q \<in> set (crawlPages (applyFormatLimits options) w sorted)" by blast
  from crawlPages_elem [OF this] p show ?thesis by blast
qed

section \<open>Lemmas: the example site\<close>

lemma truthy_simps [simp]:
  "truthy None = None" "truthy (Some []) = None" "truthy (Some (c # cs)) = Some (c # cs)"
  by (simp_all add: truthy_def)

lemma example_xml:
  "extractUrlsFromXml exampleSitemap =
     [\<lparr> loc = ''https://example.com/a'', lastmod = Some ''2024-01-02'' \<rparr>,
      \<lparr> loc = ''https://example.com/report.pdf'', lastmod = None \<rparr>]"
  by (simp add: exampleSitemap_def extractUrlsFromXml_def urlBlocks.simps blockEntry_def trim_def
        isWhiteSpace_def List.map_filter_simps)

lemma example_urls:
  assumes "siteUrl opts = ''https://example.com''"
    and "sitemapUrl opts = ''https://example.com/sitemap.xml''"
  shows "extractUrls exampleLib opts exampleWorld =
     Inr [\<lparr> loc = ''https://example.com/a'', lastmod = Some ''2024-01-02'' \<rparr>,
          \<lparr> loc = ''https://example.com/report.pdf'', lastmod = None \<rparr>]"
  using assms
  by (simp add: extractUrls_def parseSitemap_def sameHostname_def example_xml isXml_def
        endsWith_def fetch_eval exampleWorld_def exampleNet_def exampleLib_def)

lemma example_normalizeUrl:
  assumes "keepQueryParams opts = []"
  shows "normalizeUrl exampleLib opts ''https://example.com'' = ''https://example.com/''"
    and "normalizeUrl exampleLib opts ''https://example.com/'' = ''https://example.com/''"
    and "normalizeUrl exampleLib opts ''https://example.com/a'' = ''https://example.com/a''"
    and "normalizeUrl exampleLib opts ''https://example.com/b'' = ''https://example.com/b''"
    and "normalizeUrl exampleLib opts ''https://example.com/c#top'' = ''https://example.com/c''"
    and "normalizeUrl exampleLib opts ''https://example.com/c'' = ''https://example.com/c''"
  using assms by (simp_all add: normalizeUrl_def exampleLib_def)

lemma example_isInternalUrl:
  assumes "siteUrl opts = ''https://example.com''"
  shows "isInternalUrl exampleLib opts ''https://example.com/a''"
    and "isInternalUrl exampleLib opts ''https://example.com/b''"
    and "isInternalUrl exampleLib opts ''https://example.com/c''"
  using assms by (simp_all add: isInternalUrl_def exampleLib_def)

lemma example_links:
  assumes "siteUrl opts = ''https://example.com''" and "keepQueryParams opts = []"
    and "maxLinksPerPage opts = 50"
  shows "extractLinksFromPage exampleLib opts exampleWorld ''https://example.com/a'' d =
    [\<lparr> d_url = ''https://example.com/b'', depth = d, parentUrl = Some ''https://example.com/a'',
        discoveryMethod = internal_link, d_lastmod = None \<rparr>,
     \<lparr> d_url = ''https://example.com/c'', depth = d, parentUrl = Some ''https://example.com/a'',
        discoveryMethod = internal_link, d_lastmod = None \<rparr>]"
   and "extractLinksFromPage exampleLib opts exampleWorld ''https://example.com/b'' d = []"
   and "extractLinksFromPage exampleLib opts exampleWorld ''https://example.com/c'' d = []"
  using assms example_normalizeUrl [OF assms(2)] example_isInternalUrl [OF assms(1)]
  by (simp_all add: extractLinksFromPage_def fetch_eval exampleWorld_def exampleNet_def
       List.map_filter_simps slice0_def)

lemma discoverLoop_numeral:
  "discoverLoop lib opts w (numeral k) d discovered toProcess =
     (let currentLevelUrls =
            filter (\<lambda>u. map_option depth (map_of discovered u) = Some d) toProcess
      in if currentLevelUrls = [] then Inr discovered
         else
           (case extractLinksFromPages lib opts w currentLevelUrls (d + 1) of
              Inl e \<Rightarrow> Inl e
            | Inr newUrls \<Rightarrow>
                (let st = fold (addNew lib opts) newUrls (discovered, toProcess)
                 in discoverLoop lib opts w (pred_numeral k) (d + 1) (fst st) (snd st))))"
  by (simp add: numeral_eq_Suc)

lemma drainQueue_numeral:
  "drainQueue (numeral k) [] = []"
  "drainQueue (numeral k) (u # us) =
     (if u = [] then drainQueue (pred_numeral k) us else u # drainQueue (numeral k) us)"
  by (simp_all add: numeral_eq_Suc)

lemma example_discover:
  assumes "siteUrl opts = ''https://example.com''" and "keepQueryParams opts = []"
    and "maxLinksPerPage opts = 50" and "enableRecursiveDiscovery opts"
    and "maxRecursiveDepth opts = 3" and "concurrency opts = 5"
  shows "discoverUrlsRecursively exampleLib opts exampleWorld
           [\<lparr> loc = ''https://example.com/a'', lastmod = Some ''2024-01-02'' \<rparr>] =
    Inr [\<lparr> d_url = ''https://example.com/a'', depth = 0, parentUrl = None,
            discoveryMethod = sitemap, d_lastmod = Some ''2024-01-02'' \<rparr>,
         \<lparr> d_url = ''https://example.com/b'', depth = 1,
            parentUrl = Some ''https://example.com/a'',
            discoveryMethod = internal_link, d_lastmod = None \<rparr>,
         \<lparr> d_url = ''https://example.com/c'', depth = 1,
            parentUrl = Some ''https://example.com/a'',
            discoveryMethod = internal_link, d_lastmod = None \<rparr>]"
  using assms(4-6) example_normalizeUrl [OF assms(2)] example_isInternalUrl [OF assms(1)]
    example_links [OF assms(1-3)]
  by (simp add: discoverUrlsRecursively_def addInitial_def addNew_def setAdd_def truthy_def
        extractLinksFromPages_def discoverLoop_numeral drainQueue_numeral Let_def
      cong: sum.case_cong_weak option.case_cong_weak)

lemma example_crawl:
  assumes "contentTransformer opts = (\<lambda>c u. Inr c)"
  shows "crawlSinglePage opts exampleWorld ''https://example.com/a'' lm
           = (examplePage ''https://example.com/a'' ''12345678'')\<lparr> p_lastmod := truthy lm \<rparr>"
    and "crawlSinglePage opts exampleWorld ''https://example.com/b'' lm
           = (examplePage ''https://example.com/b'' ''12345678'')\<lparr> p_lastmod := truthy lm \<rparr>"
    and "crawlSinglePage opts exampleWorld ''https://example.com/c'' lm
           = (examplePage ''https://example.com/c'' ''12345678'')\<lparr> p_lastmod := truthy lm \<rparr>"
    and "crawlSinglePage opts exampleWorld ''https://example.com/report.pdf'' lm
           = skipped ''https://example.com/report.pdf'' lm 0 ''No content extracted.''
               ''Non-HTML content type'' 200 ''content-type''"
    and "crawlSinglePage opts exampleWorld ''https://example.com/missing'' lm
           = crawlFailed ''https://example.com/missing'' lm 0
               (GeneratorError ''HTTP 404: Not Found'' NETWORK_ERROR
                  (Some ''https://example.com/missing''))"
  using assms
  by (simp_all add: crawlSinglePage_def fetch_eval exampleWorld_def exampleNet_def notFound_def
        examplePage_def)

lemma example_sort:
  "sortUrls exampleWorld
     [\<lparr> loc = ''https://example.com/a'', lastmod = Some ''2024-01-02'' \<rparr>,
      \<lparr> loc = ''https://example.com/report.pdf'', lastmod = None \<rparr>]
   = [\<lparr> loc = ''https://example.com/a'', lastmod = Some ''2024-01-02'' \<rparr>,
      \<lparr> loc = ''https://example.com/report.pdf'', lastmod = None \<rparr>]"
  "sortUrls exampleWorld
     [\<lparr> loc = ''https://example.com/a'', lastmod = Some ''2024-01-02'' \<rparr>,
      \<lparr> loc = ''https://example.com/b'', lastmod = None \<rparr>,
      \<lparr> loc = ''https://example.com/c'', lastmod = None \<rparr>]
   = [\<lparr> loc = ''https://example.com/a'', lastmod = Some ''2024-01-02'' \<rparr>,
      \<lparr> loc = ''https://example.com/b'', lastmod = None \<rparr>,
      \<lparr> loc = ''https://example.com/c'', lastmod = None \<rparr>]"
  "sortUrls exampleWorld [\<lparr> loc = ''https://example.com/'', lastmod = None \<rparr>]
   = [\<lparr> loc = ''https://example.com/'', lastmod = None \<rparr>]"
  by (simp_all add: sortUrls_def sortBy_def compareUrls_def truthy_def exampleWorld_def)

text \<open>Three runs of the generator on the example site.\<close>

lemma example_run_limited:
  "generate exampleLib limitedOptions exampleWorld
   = Inr ([pageA, reportSkipped], \<lparr> truncatedPages = 0, globalLimitReached = False \<rparr>)"
proof -
  define opts where "opts = applyFormatLimits limitedOptions"
  have o: "siteUrl opts = ''https://example.com''"
    "sitemapUrl opts = ''https://example.com/sitemap.xml''"
    "contentTransformer opts = (\<lambda>c u. Inr c)" "\<not> enableRecursiveDiscovery opts"
    "maxPages opts = 5000" "includePatterns opts = []" "excludePatterns opts = []"
    "concurrency opts = 5" "contentFilter opts = None" "maxCharsPerPage opts = 200000"
    "maxTotalChars opts = 50000000"
    by (simp_all add: opts_def limitedOptions_def applyFormatLimits_def defaultOptions_def
          defaultFormatLimits_def)
  have c: "crawlInput exampleLib opts exampleWorld
             [\<lparr> loc = ''https://example.com/a'', lastmod = Some ''2024-01-02'' \<rparr>,
              \<lparr> loc = ''https://example.com/report.pdf'', lastmod = None \<rparr>]
           = Inr [\<lparr> loc = ''https://example.com/a'', lastmod = Some ''2024-01-02'' \<rparr>,
                  \<lparr> loc = ''https://example.com/report.pdf'', lastmod = None \<rparr>]"
    by (simp add: crawlInput_def filterUrls_def limitedUrls_def slice0_def o
          discoverUrlsRecursively_def toSitemapUrl_def example_sort)
  have "generate exampleLib limitedOptions exampleWorld
        = Inr (applyCharacterLimits opts
                 (applyContentFiltering opts exampleWorld
                    (crawlPages opts exampleWorld
                       [\<lparr> loc = ''https://example.com/a'', lastmod = Some ''2024-01-02'' \<rparr>,
                        \<lparr> loc = ''https://example.com/report.pdf'', lastmod = None \<rparr>]))
                 createInitialStats)"
    using example_urls [OF o(1,2)] c by (simp add: generate_def opts_def [symmetric])
  also have "\<dots> = Inr ([pageA, reportSkipped],
                       \<lparr> truncatedPages = 0, globalLimitReached = False \<rparr>)"
    by (simp add: crawlPages_def applyContentFiltering_def o example_crawl [OF o(3)]
          applyCharacterLimits_def truncatePage_def createInitialStats_def examplePage_def
          skipped_def pageA_def reportSkipped_def)
  finally show ?thesis .
qed

lemma example_run_truncating:
  "generate exampleLib truncatingOptions exampleWorld
   = Inr ([pageATruncated, reportTruncated],
          \<lparr> truncatedPages = 2, globalLimitReached = False \<rparr>)"
proof -
  define opts where "opts = applyFormatLimits truncatingOptions"
  have o: "siteUrl opts = ''https://example.com''"
    "sitemapUrl opts = ''https://example.com/sitemap.xml''"
    "contentTransformer opts = (\<lambda>c u. Inr c)" "\<not> enableRecursiveDiscovery opts"
    "maxPages opts = 5000" "includePatterns opts = []" "excludePatterns opts = []"
    "concurrency opts = 5" "contentFilter opts = None" "maxCharsPerPage opts = 3"
    "maxTotalChars opts = 50000000"
    by (simp_all add: opts_def truncatingOptions_def applyFormatLimits_def plainOptions_def
          defaultOptions_def)
  have c: "crawlInput exampleLib opts exampleWorld
             [\<lparr> loc = ''https://example.com/a'', lastmod = Some ''2024-01-02'' \<rparr>,
              \<lparr> loc = ''https://example.com/report.pdf'', lastmod = None \<rparr>]
           = Inr [\<lparr> loc = ''https://example.com/a'', lastmod = Some ''2024-01-02'' \<rparr>,
                  \<lparr> loc = ''https://example.com/report.pdf'', lastmod = None \<rparr>]"
    by (simp add: crawlInput_def filterUrls_def limitedUrls_def slice0_def o
          discoverUrlsRecursively_def toSitemapUrl_def example_sort)
  have "generate exampleLib truncatingOptions exampleWorld
        = Inr (applyCharacterLimits opts
                 (applyContentFiltering opts exampleWorld
                    (crawlPages opts exampleWorld
                       [\<lparr> loc = ''https://example.com/a'', lastmod = Some ''2024-01-02'' \<rparr>,
                        \<lparr> loc = ''https://example.com/report.pdf'', lastmod = None \<rparr>]))
                 createInitialStats)"
    using example_urls [OF o(1,2)] c by (simp add: generate_def opts_def [symmetric])
  also have "\<dots> = Inr ([pageATruncated, reportTruncated],
                       \<lparr> truncatedPages = 2, globalLimitReached = False \<rparr>)"
    by (simp add: crawlPages_def applyContentFiltering_def o example_crawl [OF o(3)]
          applyCharacterLimits_def truncatePage_def createInitialStats_def examplePage_def
          skipped_def substring0_def pageA_def reportSkipped_def pageATruncated_def
          reportTruncated_def truncationMarker_def showInt_def showNat.simps digitChar_def)
  finally show ?thesis .
qed

lemma example_run_recursive:
  "generate exampleLib recursiveOptions exampleWorld
   = Inr ([pageA, pageB, pageC], \<lparr> truncatedPages = 0, globalLimitReached = False \<rparr>)"
proof -
  define opts where "opts = applyFormatLimits recursiveOptions"
  have o: "siteUrl opts = ''https://example.com''"
    "sitemapUrl opts = ''https://example.com/sitemap.xml''"
    "contentTransformer opts = (\<lambda>c u. Inr c)" "enableRecursiveDiscovery opts"
    "maxPages opts = 1" "includePatterns opts = []" "excludePatterns opts = []"
    "concurrency opts = 5" "contentFilter opts = None" "maxCharsPerPage opts = 200000"
    "maxTotalChars opts = 50000000" "keepQueryParams opts = []" "maxLinksPerPage opts = 50"
    "maxRecursiveDepth opts = 3"
    by (simp_all add: opts_def recursiveOptions_def applyFormatLimits_def plainOptions_def
          defaultOptions_def)
  have f: "filterUrls opts
             [\<lparr> loc = ''https://example.com/a'', lastmod = Some ''2024-01-02'' \<rparr>,
              \<lparr> loc = ''https://example.com/report.pdf'', lastmod = None \<rparr>]
           = [\<lparr> loc = ''https://example.com/a'', lastmod = Some ''2024-01-02'' \<rparr>]"
    by (simp add: filterUrls_def limitedUrls_def slice0_def o)
  have c: "crawlInput exampleLib opts exampleWorld
             [\<lparr> loc = ''https://example.com/a'', lastmod = Some ''2024-01-02'' \<rparr>,
              \<lparr> loc = ''https://example.com/report.pdf'', lastmod = None \<rparr>]
           = Inr [\<lparr> loc = ''https://example.com/a'', lastmod = Some ''2024-01-02'' \<rparr>,
                  \<lparr> loc = ''https://example.com/b'', lastmod = None \<rparr>,
                  \<lparr> loc = ''https://example.com/c'', lastmod = None \<rparr>]"
    by (simp add: crawlInput_def f example_discover [OF o(1) o(12) o(13) o(4) o(14) o(8)]
          toSitemapUrl_def example_sort)
  have "generate exampleLib recursiveOptions exampleWorld
        = Inr (applyCharacterLimits opts
                 (applyContentFiltering opts exampleWorld
                    (crawlPages opts exampleWorld
                       [\<lparr> loc = ''https://example.com/a'', lastmod = Some ''2024-01-02'' \<rparr>,
                        \<lparr> loc = ''https://example.com/b'', lastmod = None \<rparr>,
                        \<lparr> loc = ''https://example.com/c'', lastmod = None \<rparr>]))
                 createInitialStats)"
    using example_urls [OF o(1,2)] c by (simp add: generate_def opts_def [symmetric])
  also have "\<dots> = Inr ([pageA, pageB, pageC],
                       \<lparr> truncatedPages = 0, globalLimitReached = False \<rparr>)"
    by (simp add: crawlPages_def applyContentFiltering_def o example_crawl [OF o(3)]
          applyCharacterLimits_def truncatePage_def createInitialStats_def examplePage_def
          pageA_def pageB_def pageC_def)
  finally show ?thesis .
qed

section \<open>Lemmas: discovery never loses its seeds\<close>

lemma update_not_Nil: "AList.update k v al \<noteq> []"
  by (cases al) auto

lemma fold_addInitial_not_Nil:
  "fst st \<noteq> [] \<or> es \<noteq> [] \<Longrightarrow> fst (fold (addInitial lib opts) es st) \<noteq> []"
proof (induction es arbitrary: st)
  case Nil
  then show ?case by simp
next
  case (Cons e es)
  have "fst (addInitial lib opts e st) \<noteq> []"
    by (simp add: addInitial_def Let_def update_not_Nil)
  with Cons.IH [of "addInitial lib opts e st"] show ?case by simp
qed

lemma fold_addNew_not_Nil:
  "fst st \<noteq> [] \<Longrightarrow> fst (fold (addNew lib opts) ns st) \<noteq> []"
proof (induction ns arbitrary: st)
  case Nil
  then show ?case by simp
next
  case (Cons n ns)
  have "fst (addNew lib opts n st) \<noteq> []"
    using Cons.prems by (simp add: addNew_def Let_def update_not_Nil)
  with Cons.IH [of "addNew lib opts n st"] show ?case by simp
qed

lemma discoverLoop_not_Nil:
  "discovered \<noteq> [] \<Longrightarrow> discoverLoop lib opts w n d discovered toProcess = Inr r \<Longrightarrow> r \<noteq> []"
proof (induction n arbitrary: d discovered toProcess)
  case 0
  then show ?case by simp
next
  case (Suc n)
  show ?case
  proof (cases "filter (\<lambda>u. map_option depth (map_of discovered u) = Some d) toProcess = []")
    case True
    with Suc.prems show ?thesis by simp
  next
    case False
    with Suc.prems obtain newUrls where
      step: "discoverLoop lib opts w n (d + 1)
               (fst (fold (addNew lib opts) newUrls (discovered, toProcess)))
               (snd (fold (addNew lib opts) newUrls (discovered, toProcess))) = Inr r"
      by (auto simp: Let_def split: sum.splits)
    have "fst (fold (addNew lib opts) newUrls (discovered, toProcess)) \<noteq> []"
      using Suc.prems(1) by (intro fold_addNew_not_Nil) simp
    from Suc.IH [OF this step] show ?thesis .
  qed
qed

lemma discoverUrlsRecursively_not_Nil:
  assumes "initialUrls \<noteq> []"
    and "discoverUrlsRecursively lib opts w initialUrls = Inr ds"
  shows "ds \<noteq> []"
proof (cases "enableRecursiveDiscovery opts")
  case False
  with assms show ?thesis by (auto simp: discoverUrlsRecursively_def)
next
  case True
  with assms(2) obtain discovered where
    loop: "discoverLoop lib opts w (nat (maxRecursiveDepth opts)) 0
             (fst (fold (addInitial lib opts) initialUrls ([], [])))
             (snd (fold (addInitial lib opts) initialUrls ([], []))) = Inr discovered"
    and ds: "ds = map snd discovered"
    by (auto simp: discoverUrlsRecursively_def Let_def split: sum.splits)
  have "fst (fold (addInitial lib opts) initialUrls ([], [])) \<noteq> []"
    using assms(1) by (intro fold_addInitial_not_Nil) simp
  from discoverLoop_not_Nil [OF this loop] ds show ?thesis by simp
qed

lemma sortUrls_not_Nil: "xs \<noteq> [] \<Longrightarrow> sortUrls w xs \<noteq> []"
  using length_sortBy [of "compareUrls w" xs] by (auto simp: sortUrls_def)

section \<open>Lemmas: the runs of the worker pool\<close>















section \<open>Lemmas: the fallback chain\<close>

lemma length_outcomes: "length (outcomes ms d u) = length ms"
  by (induction ms arbitrary: d) auto

lemma tryMethods_first:
  assumes "k < length ms" and "outcomes ms d u ! k = Inr r" and "accepted r"
    and "\<forall>j < k. \<not> succeeded (outcomes ms d u ! j)"
  shows "fst (tryMethods ms d u) = Some r"
  using assms
proof (induction ms arbitrary: d k)
  case Nil
  then show ?case by simp
next
  case (Cons m ms)
  show ?case
  proof (cases k)
    case 0
    with Cons.prems show ?thesis by simp
  next
    case (Suc k')
    from Cons.prems(4) Suc have first: "\<not> succeeded (fst (m d u))" by auto
    have rest: "\<forall>j < k'. \<not> succeeded (outcomes ms (snd (m d u)) u ! j)"
      using Cons.prems(4) Suc by auto
    from Cons.prems Suc have
      "k' < length ms" "outcomes ms (snd (m d u)) u ! k' = Inr r"
      by simp_all
    from Cons.IH [OF this Cons.prems(3) rest]
    have "fst (tryMethods ms (snd (m d u)) u) = Some r" .
    with first show ?thesis
      by (auto simp: succeeded_def split: sum.splits)
  qed
qed

lemma tryMethods_none:
  assumes "\<forall>k < length ms. \<not> succeeded (outcomes ms d u ! k)"
  shows "tryMethods ms d u = (None, documentAfter ms d u)"
  using assms
proof (induction ms arbitrary: d)
  case Nil
  then show ?case by simp
next
  case (Cons m ms)
  from Cons.prems have first: "\<not> succeeded (fst (m d u))" by auto
  have "\<forall>k < length ms. \<not> succeeded (outcomes ms (snd (m d u)) u ! k)"
    using Cons.prems by auto
  from Cons.IH [OF this] first show ?case
    by (auto simp: succeeded_def split: sum.splits)
qed

subsection \<open>Merging the children of a sitemap index\<close>

lemma update_mem:
  "(a, b) \<in> set (AList.update k v al) \<Longrightarrow> (a, b) = (k, v) \<or> (a, b) \<in> set al"
  by (induction al) (auto split: if_splits)

lemma update_fresh: "k \<notin> fst ` set al \<Longrightarrow> AList.update k v al = al @ [(k, v)]"
  by (induction al) auto

lemma fold_update_keys:
  "fst ` set (fold (\<lambda>e m. AList.update (loc e) e m) es m) = fst ` set m \<union> loc ` set es"
  by (induction es arbitrary: m) (auto simp: dom_update)

lemma fold_update_distinct:
  "distinct (map fst m) \<Longrightarrow> distinct (map fst (fold (\<lambda>e m. AList.update (loc e) e m) es m))"
  by (induction es arbitrary: m) (auto simp: distinct_update)

lemma fold_update_keyed:
  "\<forall>x \<in> set m. loc (snd x) = fst x
   \<Longrightarrow> \<forall>x \<in> set (fold (\<lambda>e m. AList.update (loc e) e m) es m). loc (snd x) = fst x"
proof (induction es arbitrary: m)
  case Nil
  then show ?case by simp
next
  case (Cons e es)
  have "\<forall>x \<in> set (AList.update (loc e) e m). loc (snd x) = fst x"
    using Cons.prems update_mem [of _ _ "loc e" e m] by fastforce
  from Cons.IH [OF this] show ?case by simp
qed

lemma fold_update_fresh:
  "distinct (map loc es) \<Longrightarrow> loc ` set es \<inter> fst ` set m = {}
   \<Longrightarrow> fold (\<lambda>e m. AList.update (loc e) e m) es m = m @ map (\<lambda>e. (loc e, e)) es"
proof (induction es arbitrary: m)
  case Nil
  then show ?case by simp
next
  case (Cons e es)
  from Cons.prems have 1: "loc e \<notin> fst ` set m" by auto
  have 2: "loc ` set es \<inter> fst ` set (m @ [(loc e, e)]) = {}"
    using Cons.prems by auto
  from Cons.prems have 3: "distinct (map loc es)" by simp
  show ?case using Cons.IH [OF 3 2] by (simp add: update_fresh [OF 1])
qed

lemma map_of_fold_update:
  "map_of (fold (\<lambda>e m. AList.update (loc e) e m) es m) k =
     (case filter (\<lambda>x. loc x = k) es of [] \<Rightarrow> map_of m k | x # xs \<Rightarrow> Some (last (x # xs)))"
  by (induction es arbitrary: m) (auto simp: update_conv' split: list.splits)

lemma index_xml:
  "extractUrlsFromXml indexXml =
     [\<lparr> loc = ''https://example.com/pages.xml'', lastmod = None \<rparr>,
      \<lparr> loc = ''https://example.com/posts.xml'', lastmod = None \<rparr>]"
  "extractUrlsFromXml index2Xml =
     [\<lparr> loc = ''https://example.com/posts.xml'', lastmod = None \<rparr>,
      \<lparr> loc = ''https://example.com/feeds.xml'', lastmod = None \<rparr>]"
  "extractUrlsFromXml pagesXml =
     [\<lparr> loc = ''https://example.com/a'', lastmod = None \<rparr>,
      \<lparr> loc = ''https://www.example.com/x'', lastmod = None \<rparr>]"
  "extractUrlsFromXml postsXml = [\<lparr> loc = ''https://example.com/b'', lastmod = None \<rparr>]"
  "extractUrlsFromXml feedsXml =
     [\<lparr> loc = ''https://example.com/c'', lastmod = None \<rparr>,
      \<lparr> loc = ''https://example.com/rss.xml'', lastmod = None \<rparr>]"
  by (simp_all add: indexXml_def index2Xml_def pagesXml_def postsXml_def feedsXml_def
        extractUrlsFromXml_def urlBlocks.simps allTags.simps blockEntry_def trim_def
        isWhiteSpace_def List.map_filter_simps)

lemma index_fetch:
  "fst (fetchWithRetry (net indexWorld ''https://example.com/sitemap.xml'')
          ''https://example.com/sitemap.xml'') = Inr (xmlResponse indexXml)"
  "fst (fetchWithRetry (net indexWorld ''https://example.com/sitemap2.xml'')
          ''https://example.com/sitemap2.xml'') = Inr (xmlResponse index2Xml)"
  "fst (fetchWithRetry (net indexWorld ''https://example.com/pages.xml'')
          ''https://example.com/pages.xml'') = Inr (xmlResponse pagesXml)"
  "fst (fetchWithRetry (net indexWorld ''https://example.com/posts.xml'')
          ''https://example.com/posts.xml'') = Inr (xmlResponse postsXml)"
  "fst (fetchWithRetry (net indexWorld ''https://example.com/feeds.xml'')
          ''https://example.com/feeds.xml'') = Inr (xmlResponse feedsXml)"
  by (simp_all add: indexWorld_def indexNet_def xmlResponse_def fetchWithRetry_def
        fetchLoop.simps tryFetch_def ok_def)

lemma index_parse:
  assumes "siteUrl opts = ''https://example.com''"
  shows "parseSitemap exampleLib opts indexWorld ''https://example.com/sitemap.xml''
           = Inr \<lparr> s_urls = [], isIndex = True,
                    childSitemaps = Some [''https://example.com/pages.xml'',
                                          ''https://example.com/posts.xml''] \<rparr>"
    and "parseSitemap exampleLib opts indexWorld ''https://example.com/sitemap2.xml''
           = Inr \<lparr> s_urls = [], isIndex = True,
                    childSitemaps = Some [''https://example.com/posts.xml'',
                                          ''https://example.com/feeds.xml''] \<rparr>"
    and "parseSitemap exampleLib opts indexWorld ''https://example.com/pages.xml''
           = Inr \<lparr> s_urls = [\<lparr> loc = ''https://example.com/a'', lastmod = None \<rparr>],
                    isIndex = False, childSitemaps = None \<rparr>"
    and "parseSitemap exampleLib opts indexWorld ''https://example.com/posts.xml''
           = Inr \<lparr> s_urls = [\<lparr> loc = ''https://example.com/b'', lastmod = None \<rparr>],
                    isIndex = False, childSitemaps = None \<rparr>"
    and "parseSitemap exampleLib opts indexWorld ''https://example.com/feeds.xml''
           = Inr \<lparr> s_urls = [], isIndex = True,
                    childSitemaps = Some [''https://example.com/rss.xml''] \<rparr>"
  using assms
  by (simp_all add: parseSitemap_def index_fetch xmlResponse_def index_xml isXml_def
        endsWith_def sameHostname_def exampleLib_def)

lemma index_urls:
  assumes "siteUrl opts = ''https://example.com''"
  shows "sitemapUrl opts = ''https://example.com/sitemap.xml''
         \<Longrightarrow> extractUrls exampleLib opts indexWorld
               = Inr [\<lparr> loc = ''https://example.com/a'', lastmod = None \<rparr>,
                      \<lparr> loc = ''https://example.com/b'', lastmod = None \<rparr>]"
    and "sitemapUrl opts = ''https://example.com/sitemap2.xml''
         \<Longrightarrow> extractUrls exampleLib opts indexWorld
               = Inr [\<lparr> loc = ''https://example.com/b'', lastmod = None \<rparr>]"
  by (simp_all add: extractUrls_def mergeChild_def index_parse [OF assms])

section \<open>The claims\<close>

subsection \<open>C1: a response with an error status\<close>

text \<open>
  Claim C1 says that a request answered with a status outside 2xx is not retried:
  \<^verbatim>\<open>fetchWithRetry\<close> hands the response back, the crawl worker turns it into a page with
  \<open>success = False\<close> and the skip reason \<^verbatim>\<open>http-<status>\<close>, and only transport failures
  are retried.

  The code throws such a response inside its own \<^verbatim>\<open>try\<close>, so it is retried like a
  transport failure and thrown after the last attempt. On the example site
  \<^verbatim>\<open>/missing\<close> answers 404 every time: it is fetched three times, with delays of 250 and
  500 ms, and the crawl of the page ends in the \<^verbatim>\<open>catch\<close>, with the skip reason
  \<^verbatim>\<open>parse-error\<close> and the status code 0. The branch of \<^verbatim>\<open>crawlSinglePage\<close> that
  builds \<^verbatim>\<open>http-<status>\<close> is never reached (\<open>fetchWithRetry_ok\<close>).
\<close>

theorem http_error_status_is_retried:
  "fetchWithRetry (net exampleWorld ''https://example.com/missing'') ''https://example.com/missing''
     = (Inl (GeneratorError ''HTTP 404: Not Found'' NETWORK_ERROR
               (Some ''https://example.com/missing'')),
        [FetchCall 0, Delay 250, FetchCall 1, Delay 500, FetchCall 2])
   \<and> skipReason (crawlSinglePage (defaultOptions ''https://example.com'') exampleWorld
                    ''https://example.com/missing'' None) = Some ''parse-error''
   \<and> statusCode (crawlSinglePage (defaultOptions ''https://example.com'') exampleWorld
                     ''https://example.com/missing'' None) = Some 0"
proof -
  have "net exampleWorld ''https://example.com/missing'' = (\<lambda>k. Resolved notFound)"
    by (simp add: exampleWorld_def exampleNet_def fun_eq_iff)
  then have f: "fetchWithRetry (net exampleWorld ''https://example.com/missing'')
                  ''https://example.com/missing''
     = (Inl (GeneratorError ''HTTP 404: Not Found'' NETWORK_ERROR
               (Some ''https://example.com/missing'')),
        [FetchCall 0, Delay 250, FetchCall 1, Delay 500, FetchCall 2])"
    by (simp add: fetch_eval notFound_def)
  have t: "contentTransformer (defaultOptions ''https://example.com'') = (\<lambda>c u. Inr c)"
    by (simp add: defaultOptions_def)
  show ?thesis
    unfolding example_crawl(5) [OF t] using f by (simp add: crawlFailed_def skipped_def)
qed

subsection \<open>C2: the global character budget\<close>

text \<open>
  Claim C2 says that the assembler stops including pages once the running total would
  exceed \<^verbatim>\<open>maxTotalChars\<close>, so that the included pages never add up to more than the
  budget when \<^verbatim>\<open>globalLimitReached\<close> is set, each of them kept in full.

  The code tests the budget before it adds a page, against the total of the pages
  before it. With a budget of 10 and three pages of 8, 8 and 1 characters, the second
  page is included at a total of 8, the loop stops at the third with the flag set, and the
  two included pages hold 16 characters.
\<close>

theorem global_budget_is_exceeded:
  "applyCharacterLimits budgetOptions
     [pageA, pageB, examplePage ''https://example.com/d'' ''x''] createInitialStats
     = ([pageA, pageB], \<lparr> truncatedPages = 0, globalLimitReached = True \<rparr>)
   \<and> sum_list (map (\<lambda>p. int (length (content p))) [pageA, pageB]) = 16
   \<and> maxTotalChars budgetOptions = 10"
proof -
  have o: "maxTotalChars budgetOptions = 10" "maxCharsPerPage budgetOptions = 200000"
    by (simp_all add: budgetOptions_def plainOptions_def defaultOptions_def)
  have l: "length (content pageA) = 8" "length (content pageB) = 8"
    by (simp_all add: pageA_def pageB_def examplePage_def)
  have t: "truncatePage budgetOptions pageA = pageA" "truncatePage budgetOptions pageB = pageB"
    by (simp_all add: truncatePage_def o l)
  have "applyCharacterLimits budgetOptions
          [pageA, pageB, examplePage ''https://example.com/d'' ''x''] createInitialStats
        = ([pageA, pageB], \<lparr> truncatedPages = 0, globalLimitReached = True \<rparr>)"
    by (simp add: applyCharacterLimits_def o l t createInitialStats_def)
  with o(1) l show ?thesis by simp
qed

subsection \<open>C3: the truncation flag\<close>

text \<open>
  Claim C3 says that a page of the final processed set has \<open>truncated = true\<close> exactly when
  its content was clamped to the per-page limit, and that \<open>originalLength\<close> is then at
  least \<open>contentLength\<close>, and strictly greater by the data model.

  It is not strictly greater: truncation leaves \<open>contentLength\<close> as the crawl set it. With
  a per-page limit of 3, the page \<^verbatim>\<open>/a\<close> of the example site is truncated and both
  lengths are 8.
\<close>

theorem originalLength_not_greater_counterexample:
  "generate exampleLib truncatingOptions exampleWorld
     = Inr ([pageATruncated, reportTruncated],
            \<lparr> truncatedPages = 2, globalLimitReached = False \<rparr>)
   \<and> truncated pageATruncated = Some True
   \<and> originalLength pageATruncated = Some 8
   \<and> contentLength pageATruncated = 8"
proof -
  have "truncated pageATruncated = Some True" "originalLength pageATruncated = Some 8"
    "contentLength pageATruncated = 8"
    by (simp_all add: pageATruncated_def pageA_def examplePage_def)
  with example_run_truncating show ?thesis by (intro conjI)
qed

text \<open>
  C3 as the code has it: every page \<open>p\<close> of the final processed set is a crawled page
  \<open>q\<close> after \<open>truncatePage\<close>; \<open>truncated p\<close> is true exactly when \<open>p\<close> is \<open>q\<close> clamped; and
  then \<open>originalLength p\<close> is the length of the content of \<open>q\<close>, which is at least
  \<open>contentLength p\<close>.
\<close>

theorem truncated_iff_clamped:
  assumes "generate lib options w = Inr (ps, st)" and "p \<in> set ps"
  shows "\<exists>u lm. let opts = applyFormatLimits options; q = crawlSinglePage opts w u lm
                 in p = truncatePage opts q
                    \<and> (truncated p = Some True \<longleftrightarrow> clamped opts q p)
                    \<and> (truncated p = Some True \<longrightarrow>
                          originalLength p = Some (length (content q))
                          \<and> contentLength p \<le> length (content q))"
proof -
  from generate_elem [OF assms] obtain u lm where
    p: "p = truncatePage (applyFormatLimits options)
              (crawlSinglePage (applyFormatLimits options) w u lm)"
    by blast
  define opts where "opts = applyFormatLimits options"
  define q where "q = crawlSinglePage opts w u lm"
  have q: "truncated q = Some False" "contentLength q \<le> length (content q)"
    unfolding q_def by (rule crawlSinglePage_truncated, rule crawlSinglePage_contentLength_le)
  have p': "p = truncatePage opts q" using p by (simp add: opts_def q_def)
  have "truncated p = Some True \<longleftrightarrow> clamped opts q p"
    using q(1) by (auto simp: p' truncatePage_def clamped_def)
  moreover have "truncated p = Some True \<longrightarrow>
       originalLength p = Some (length (content q)) \<and> contentLength p \<le> length (content q)"
    using q by (auto simp: p' truncatePage_def)
  ultimately show ?thesis
    using p' unfolding opts_def q_def Let_def by blast
qed

theorem truncated_iff_clamped_witness:
  "generate exampleLib truncatingOptions exampleWorld
     = Inr ([pageATruncated, reportTruncated],
            \<lparr> truncatedPages = 2, globalLimitReached = False \<rparr>)
   \<and> pageATruncated \<in> set [pageATruncated, reportTruncated]
   \<and> (\<exists>u lm. let opts = applyFormatLimits truncatingOptions;
                  q = crawlSinglePage opts exampleWorld u lm
              in pageATruncated = truncatePage opts q
                 \<and> (truncated pageATruncated = Some True \<longleftrightarrow> clamped opts q pageATruncated)
                 \<and> (truncated pageATruncated = Some True \<longrightarrow>
                       originalLength pageATruncated = Some (length (content q))
                       \<and> contentLength pageATruncated \<le> length (content q)))"
proof -
  have m: "pageATruncated \<in> set [pageATruncated, reportTruncated]" by simp
  from example_run_truncating m truncated_iff_clamped [OF example_run_truncating m]
  show ?thesis by (intro conjI)
qed

subsection \<open>C4: the content length field\<close>

text \<open>
  Claim C4 says that for every page of the final processed set, successful, skipped or
  truncated, \<open>contentLength\<close> is the length of the current \<open>content\<close>.

  A skipped page is built with \<open>contentLength = 0\<close> next to a content that says why it was
  skipped, and truncation rewrites the content without touching \<open>contentLength\<close>. On the
  example site the skipped PDF has 21 characters of content and \<open>contentLength\<close> 0; with
  a per-page limit of 3 the page \<^verbatim>\<open>/a\<close> has 27 characters of content and
  \<open>contentLength\<close> 8.
\<close>

theorem contentLength_counterexample:
  "generate exampleLib limitedOptions exampleWorld
     = Inr ([pageA, reportSkipped], \<lparr> truncatedPages = 0, globalLimitReached = False \<rparr>)
   \<and> length (content reportSkipped) = 21 \<and> contentLength reportSkipped = 0
   \<and> generate exampleLib truncatingOptions exampleWorld
     = Inr ([pageATruncated, reportTruncated],
            \<lparr> truncatedPages = 2, globalLimitReached = False \<rparr>)
   \<and> length (content pageATruncated) = 27 \<and> contentLength pageATruncated = 8"
proof -
  have "length (content reportSkipped) = 21" "contentLength reportSkipped = 0"
    by (simp_all add: reportSkipped_def skipped_def)
  moreover have "length (content pageATruncated) = 27" "contentLength pageATruncated = 8"
    by (simp_all add: pageATruncated_def pageA_def examplePage_def truncationMarker_def
          showInt_def showNat.simps digitChar_def)
  ultimately show ?thesis using example_run_limited example_run_truncating by (intro conjI)
qed

text \<open>
  C4 as the code has it: for a page of the final processed set that is successful and
  not truncated, \<open>contentLength\<close> is the length of its content; for a skipped page
  \<open>contentLength\<close> is 0.
\<close>

theorem contentLength_of_processed_page:
  assumes "generate lib options w = Inr (ps, st)" and "p \<in> set ps"
  shows "(success p \<and> truncated p \<noteq> Some True \<longrightarrow> contentLength p = length (content p))
         \<and> (\<not> success p \<longrightarrow> contentLength p = 0)"
proof -
  from generate_elem [OF assms] obtain u lm where
    p: "p = truncatePage (applyFormatLimits options)
              (crawlSinglePage (applyFormatLimits options) w u lm)"
    by blast
  define q where "q = crawlSinglePage (applyFormatLimits options) w u lm"
  have q: "success q \<Longrightarrow> contentLength q = length (content q)"
    "\<not> success q \<Longrightarrow> contentLength q = 0"
    unfolding q_def using crawlSinglePage_success crawlSinglePage_failed by blast+
  have p': "p = truncatePage (applyFormatLimits options) q"
    using p by (simp add: q_def)
  show ?thesis
  proof (cases "int (length (content q)) > maxCharsPerPage (applyFormatLimits options)")
    case True
    then have "truncated p = Some True" "success p = success q"
      "contentLength p = contentLength q"
      by (simp_all add: p' truncatePage_def)
    with q(2) show ?thesis by simp
  next
    case False
    then have "p = q" by (simp add: p' truncatePage_def)
    with q show ?thesis by simp
  qed
qed

theorem contentLength_of_processed_page_witness:
  "generate exampleLib limitedOptions exampleWorld
     = Inr ([pageA, reportSkipped], \<lparr> truncatedPages = 0, globalLimitReached = False \<rparr>)
   \<and> pageA \<in> set [pageA, reportSkipped] \<and> success pageA \<and> truncated pageA \<noteq> Some True
   \<and> contentLength pageA = length (content pageA)
   \<and> reportSkipped \<in> set [pageA, reportSkipped] \<and> \<not> success reportSkipped
   \<and> contentLength reportSkipped = 0"
proof -
  have a: "pageA \<in> set [pageA, reportSkipped]" and r: "reportSkipped \<in> set [pageA, reportSkipped]"
    by simp_all
  have s: "success pageA" "truncated pageA \<noteq> Some True" "\<not> success reportSkipped"
    by (simp_all add: pageA_def examplePage_def reportSkipped_def skipped_def)
  from contentLength_of_processed_page [OF example_run_limited a] s
  have la: "contentLength pageA = length (content pageA)" by simp
  from contentLength_of_processed_page [OF example_run_limited r] s
  have lr: "contentLength reportSkipped = 0" by simp
  from example_run_limited a s(1,2) la r s(3) lr show ?thesis by (intro conjI)
qed

subsection \<open>C5: the page limit\<close>

text \<open>
  Claim C5 says that every run of \<^verbatim>\<open>generate\<close>, recursive discovery included, ends with
  at most \<^verbatim>\<open>maxPages\<close> pages in the final processed set.

  The limit is applied once, in \<^verbatim>\<open>filterUrls\<close>, before recursive discovery adds the
  links it finds, and \<^verbatim>\<open>applyFormatLimits\<close> overwrites the user's \<^verbatim>\<open>maxPages\<close> with the
  5000 of the default \<^verbatim>\<open>full\<close> format. On the example site, a page limit of 1 with
  recursive discovery ends with three pages, and a page limit of 1 with the default
  format limits ends with two.
\<close>

theorem page_limit_is_exceeded:
  "generate exampleLib recursiveOptions exampleWorld
     = Inr ([pageA, pageB, pageC], \<lparr> truncatedPages = 0, globalLimitReached = False \<rparr>)
   \<and> maxPages recursiveOptions = 1 \<and> enableRecursiveDiscovery recursiveOptions
   \<and> generate exampleLib limitedOptions exampleWorld
     = Inr ([pageA, reportSkipped], \<lparr> truncatedPages = 0, globalLimitReached = False \<rparr>)
   \<and> maxPages limitedOptions = 1"
proof -
  have "maxPages recursiveOptions = 1" "enableRecursiveDiscovery recursiveOptions"
    "maxPages limitedOptions = 1"
    by (simp_all add: recursiveOptions_def limitedOptions_def plainOptions_def defaultOptions_def)
  with example_run_recursive example_run_limited show ?thesis by (intro conjI)
qed

subsection \<open>C6: the order of the crawl results\<close>




subsection \<open>C7: sitemap indexes\<close>

text \<open>
  Claim C7. A fetched sitemap one of whose extracted locations ends in \<^verbatim>\<open>.xml\<close> is a
  sitemap index: \<^verbatim>\<open>parseSitemap\<close> returns \<open>isIndex = True\<close>, the \<^verbatim>\<open>.xml\<close> locations
  as \<open>childSitemaps\<close> and no page URL. Resolving an index with two children is not the
  union of the children's locations in general. On the second example site the child
  \<^verbatim>\<open>/pages.xml\<close> lists \<^verbatim>\<open>https://example.com/a\<close> and \<^verbatim>\<open>https://www.example.com/x\<close>
  and the child \<^verbatim>\<open>/posts.xml\<close> lists \<^verbatim>\<open>https://example.com/b\<close>: the two sets are
  disjoint, and the resolved list is \<^verbatim>\<open>/a\<close>, \<^verbatim>\<open>/b\<close>, since the location on the host
  \<^verbatim>\<open>www.example.com\<close> is not on the site's host \<^verbatim>\<open>example.com\<close>. From
  \<^verbatim>\<open>/sitemap2.xml\<close>, whose children are \<^verbatim>\<open>/posts.xml\<close> and \<^verbatim>\<open>/feeds.xml\<close>, the resolved
  list is \<^verbatim>\<open>/b\<close> alone: \<^verbatim>\<open>/feeds.xml\<close> lists \<^verbatim>\<open>/c\<close> and \<^verbatim>\<open>/rss.xml\<close>, so it is itself
  taken for an index, whose children are not resolved.
\<close>

theorem index_resolution_counterexample:
  "extractUrlsFromXml pagesXml
     = [\<lparr> loc = ''https://example.com/a'', lastmod = None \<rparr>,
        \<lparr> loc = ''https://www.example.com/x'', lastmod = None \<rparr>]
   \<and> extractUrlsFromXml postsXml = [\<lparr> loc = ''https://example.com/b'', lastmod = None \<rparr>]
   \<and> parseSitemap exampleLib (plainOptions ''https://example.com'') indexWorld
         ''https://example.com/sitemap.xml''
     = Inr \<lparr> s_urls = [], isIndex = True,
              childSitemaps = Some [''https://example.com/pages.xml'',
                                    ''https://example.com/posts.xml''] \<rparr>
   \<and> extractUrls exampleLib (plainOptions ''https://example.com'') indexWorld
     = Inr [\<lparr> loc = ''https://example.com/a'', lastmod = None \<rparr>,
            \<lparr> loc = ''https://example.com/b'', lastmod = None \<rparr>]
   \<and> extractUrlsFromXml feedsXml
     = [\<lparr> loc = ''https://example.com/c'', lastmod = None \<rparr>,
        \<lparr> loc = ''https://example.com/rss.xml'', lastmod = None \<rparr>]
   \<and> parseSitemap exampleLib index2Options indexWorld ''https://example.com/sitemap2.xml''
     = Inr \<lparr> s_urls = [], isIndex = True,
              childSitemaps = Some [''https://example.com/posts.xml'',
                                    ''https://example.com/feeds.xml''] \<rparr>
   \<and> extractUrls exampleLib index2Options indexWorld
     = Inr [\<lparr> loc = ''https://example.com/b'', lastmod = None \<rparr>]"
proof -
  have s1: "siteUrl (plainOptions ''https://example.com'') = ''https://example.com''"
    and s2: "sitemapUrl (plainOptions ''https://example.com'') = ''https://example.com/sitemap.xml''"
    and s3: "siteUrl index2Options = ''https://example.com''"
    and s4: "sitemapUrl index2Options = ''https://example.com/sitemap2.xml''"
    by (simp_all add: index2Options_def plainOptions_def defaultOptions_def)
  show ?thesis
    using index_xml(3,4,5) index_parse(1) [OF s1] index_urls(1) [OF s1 s2]
      index_parse(2) [OF s3] index_urls(2) [OF s3 s4]
    by (intro conjI)
qed

text \<open>
  C7 as the code has it: when the two children are fetched, neither lists a location ending in
  \<^verbatim>\<open>.xml\<close> and the site URL parses, the resolved list has exactly those locations of
  the two children that parse as URLs with the site's hostname, each once; for a
  location listed more than once the last entry is the one kept; and when these
  locations are all different, the resolved list is the first child's entries
  followed by the second's.
\<close>

theorem sitemap_index_resolution:
  fixes lib :: "'u UrlLib"
  assumes "fst (fetchWithRetry (net w (sitemapUrl opts)) (sitemapUrl opts)) = Inr r0"
    and "body r0 = Inr xml0"
    and "map loc (filter isXml (extractUrlsFromXml xml0)) = [c1, c2]"
    and "fst (fetchWithRetry (net w c1) c1) = Inr r1" and "body r1 = Inr xml1"
    and "fst (fetchWithRetry (net w c2) c2) = Inr r2" and "body r2 = Inr xml2"
    and "\<not> list_ex isXml (extractUrlsFromXml xml1)"
    and "\<not> list_ex isXml (extractUrlsFromXml xml2)"
    and "url_parse lib (siteUrl opts) = Some site"
  shows "(\<forall>u r xml. fst (fetchWithRetry (net w u) u) = Inr r \<and> body r = Inr xml
             \<and> list_ex isXml (extractUrlsFromXml xml)
           \<longrightarrow> parseSitemap lib opts w u
                 = Inr \<lparr> s_urls = [], isIndex = True,
                          childSitemaps = Some (map loc (filter isXml (extractUrlsFromXml xml))) \<rparr>)
     \<and> parseSitemap lib opts w (sitemapUrl opts)
         = Inr \<lparr> s_urls = [], isIndex = True, childSitemaps = Some [c1, c2] \<rparr>
     \<and> (let onSite = filter (sameHostname lib site) (extractUrlsFromXml xml1)
                       @ filter (sameHostname lib site) (extractUrlsFromXml xml2)
         in \<exists>resolved. extractUrls lib opts w = Inr resolved
              \<and> distinct (map loc resolved)
              \<and> set (map loc resolved) = set (map loc onSite)
              \<and> (\<forall>e \<in> set resolved. e = last (filter (\<lambda>x. loc x = loc e) onSite))
              \<and> (distinct (map loc onSite) \<longrightarrow> resolved = onSite))"
proof -
  let ?upd = "\<lambda>e m. AList.update (loc e) e m"
  let ?on1 = "filter (sameHostname lib site) (extractUrlsFromXml xml1)"
  let ?on2 = "filter (sameHostname lib site) (extractUrlsFromXml xml2)"
  let ?m = "fold ?upd (?on1 @ ?on2) []"
  have general: "parseSitemap lib opts w u
         = Inr \<lparr> s_urls = [], isIndex = True,
                  childSitemaps = Some (map loc (filter isXml (extractUrlsFromXml xml))) \<rparr>"
    if "fst (fetchWithRetry (net w u) u) = Inr r" "body r = Inr xml"
      "list_ex isXml (extractUrlsFromXml xml)" for u r xml
    using that by (simp add: parseSitemap_def)
  have "filter isXml (extractUrlsFromXml xml0) \<noteq> []" using assms(3) by auto
  then have "list_ex isXml (extractUrlsFromXml xml0)"
    by (auto simp: list_ex_iff filter_empty_conv)
  from general [OF assms(1,2) this] assms(3)
  have root: "parseSitemap lib opts w (sitemapUrl opts)
         = Inr \<lparr> s_urls = [], isIndex = True, childSitemaps = Some [c1, c2] \<rparr>"
    by simp
  have child1: "parseSitemap lib opts w c1
         = Inr \<lparr> s_urls = ?on1, isIndex = False, childSitemaps = None \<rparr>"
    using assms(4,5,8,10) by (simp add: parseSitemap_def)
  have child2: "parseSitemap lib opts w c2
         = Inr \<lparr> s_urls = ?on2, isIndex = False, childSitemaps = None \<rparr>"
    using assms(6,7,9,10) by (simp add: parseSitemap_def)
  have res: "extractUrls lib opts w = Inr (map snd ?m)"
    by (simp add: extractUrls_def root mergeChild_def child1 child2)
  have keyed: "\<forall>x \<in> set ?m. loc (snd x) = fst x"
    by (rule fold_update_keyed) simp
  then have locs: "map loc (map snd ?m) = map fst ?m" by simp
  have dist: "distinct (map fst ?m)" by (rule fold_update_distinct) simp
  have keys: "fst ` set ?m = loc ` set (?on1 @ ?on2)" by (simp only: fold_update_keys) simp
  have a: "distinct (map loc (map snd ?m))" using dist by (simp only: locs)
  have b: "set (map loc (map snd ?m)) = set (map loc (?on1 @ ?on2))"
    using keys by (simp only: locs set_map)
  have c: "e = last (filter (\<lambda>x. loc x = loc e) (?on1 @ ?on2))" if "e \<in> set (map snd ?m)" for e
  proof -
    from that obtain k where k: "(k, e) \<in> set ?m" by auto
    with keyed have "k = loc e" by auto
    with k dist have "map_of ?m (loc e) = Some e" by simp
    then show ?thesis
      by (simp only: map_of_fold_update) (auto split: list.splits)
  qed
  have d: "map snd ?m = ?on1 @ ?on2" if "distinct (map loc (?on1 @ ?on2))"
  proof -
    have "?m = [] @ map (\<lambda>e. (loc e, e)) (?on1 @ ?on2)"
      by (rule fold_update_fresh [OF that]) simp
    then show ?thesis by (simp add: comp_def)
  qed
  have "\<exists>resolved. extractUrls lib opts w = Inr resolved
              \<and> distinct (map loc resolved)
              \<and> set (map loc resolved) = set (map loc (?on1 @ ?on2))
              \<and> (\<forall>e \<in> set resolved. e = last (filter (\<lambda>x. loc x = loc e) (?on1 @ ?on2)))
              \<and> (distinct (map loc (?on1 @ ?on2)) \<longrightarrow> resolved = ?on1 @ ?on2)"
    using res a b c d by blast
  with general root show ?thesis unfolding Let_def by blast
qed

theorem sitemap_index_resolution_witness:
  "fst (fetchWithRetry (net indexWorld ''https://example.com/sitemap.xml'')
          ''https://example.com/sitemap.xml'') = Inr (xmlResponse indexXml)
   \<and> body (xmlResponse indexXml) = Inr indexXml
   \<and> map loc (filter isXml (extractUrlsFromXml indexXml))
       = [''https://example.com/pages.xml'', ''https://example.com/posts.xml'']
   \<and> fst (fetchWithRetry (net indexWorld ''https://example.com/pages.xml'')
          ''https://example.com/pages.xml'') = Inr (xmlResponse pagesXml)
   \<and> body (xmlResponse pagesXml) = Inr pagesXml
   \<and> fst (fetchWithRetry (net indexWorld ''https://example.com/posts.xml'')
          ''https://example.com/posts.xml'') = Inr (xmlResponse postsXml)
   \<and> body (xmlResponse postsXml) = Inr postsXml
   \<and> \<not> list_ex isXml (extractUrlsFromXml pagesXml)
   \<and> \<not> list_ex isXml (extractUrlsFromXml postsXml)
   \<and> url_parse exampleLib (siteUrl (plainOptions ''https://example.com''))
       = Some ''https://example.com/''
   \<and> parseSitemap exampleLib (plainOptions ''https://example.com'') indexWorld
         ''https://example.com/sitemap.xml''
       = Inr \<lparr> s_urls = [], isIndex = True,
                childSitemaps = Some [''https://example.com/pages.xml'',
                                      ''https://example.com/posts.xml''] \<rparr>
   \<and> extractUrls exampleLib (plainOptions ''https://example.com'') indexWorld
       = Inr [\<lparr> loc = ''https://example.com/a'', lastmod = None \<rparr>,
              \<lparr> loc = ''https://example.com/b'', lastmod = None \<rparr>]"
proof -
  let ?opts = "plainOptions ''https://example.com''"
  have s2: "sitemapUrl ?opts = ''https://example.com/sitemap.xml''"
    by (simp add: plainOptions_def defaultOptions_def)
  have 1: "fst (fetchWithRetry (net indexWorld (sitemapUrl ?opts)) (sitemapUrl ?opts))
             = Inr (xmlResponse indexXml)"
    unfolding s2 by (rule index_fetch(1))
  have 2: "body (xmlResponse xml) = Inr xml" for xml by (simp add: xmlResponse_def)
  have 3: "map loc (filter isXml (extractUrlsFromXml indexXml))
             = [''https://example.com/pages.xml'', ''https://example.com/posts.xml'']"
    by (simp add: index_xml isXml_def endsWith_def)
  have 8: "\<not> list_ex isXml (extractUrlsFromXml pagesXml)"
    by (simp add: index_xml isXml_def endsWith_def)
  have 9: "\<not> list_ex isXml (extractUrlsFromXml postsXml)"
    by (simp add: index_xml isXml_def endsWith_def)
  have 10: "url_parse exampleLib (siteUrl ?opts) = Some ''https://example.com/''"
    by (simp add: plainOptions_def defaultOptions_def exampleLib_def)
  note T = sitemap_index_resolution [OF 1 2 3 index_fetch(3) 2 index_fetch(4) 2 8 9 10]
  have on: "filter (sameHostname exampleLib ''https://example.com/'') (extractUrlsFromXml pagesXml)
              @ filter (sameHostname exampleLib ''https://example.com/'') (extractUrlsFromXml postsXml)
            = [\<lparr> loc = ''https://example.com/a'', lastmod = None \<rparr>,
               \<lparr> loc = ''https://example.com/b'', lastmod = None \<rparr>]"
    by (simp add: index_xml sameHostname_def exampleLib_def)
  from T [THEN conjunct2, THEN conjunct2, unfolded Let_def on]
  have b: "extractUrls exampleLib ?opts indexWorld
             = Inr [\<lparr> loc = ''https://example.com/a'', lastmod = None \<rparr>,
                    \<lparr> loc = ''https://example.com/b'', lastmod = None \<rparr>]"
    by auto
  from T [THEN conjunct2, THEN conjunct1]
  have a: "parseSitemap exampleLib ?opts indexWorld ''https://example.com/sitemap.xml''
             = Inr \<lparr> s_urls = [], isIndex = True,
                      childSitemaps = Some [''https://example.com/pages.xml'',
                                            ''https://example.com/posts.xml''] \<rparr>"
    unfolding s2 .
  from 1 [unfolded s2] 2 [of indexXml] 3 index_fetch(3) 2 [of pagesXml] index_fetch(4)
    2 [of postsXml] 8 9 10 a b
  show ?thesis by (intro conjI)
qed

subsection \<open>C8: the extraction fallback chain\<close>

text \<open>
  Claim C8: in multi-method mode the chain tries Readability, the semantic selectors,
  the content selectors, the metadata and the raw text in this order, takes the first
  whose trimmed output is longer than 50 characters, and when every method fails returns
  the fixed placeholder with the document's title; it never throws.

  The title of the placeholder is \<^verbatim>\<open>document.title || url\<close>: for a document without a
  title it is the URL of the page, not the empty title. With every method failing on a
  document whose title is empty:
\<close>

theorem placeholder_title_counterexample:
  "documentTitle failingExtractors [] = []
   \<and> extractContentWithFallbacks failingExtractors [] ''https://example.com/a''
     = \<lparr> tc_title = ''https://example.com/a'',
         tc_content = ''No content could be extracted from this page.'' \<rparr>"
  by (simp add: extractContentWithFallbacks_def extractionMethods_def failingExtractors_def
        noContent_def)

text \<open>
  C8 as the code has it. The methods are the five of the claim, in its order. If the
  \<open>k\<close>-th is the first to succeed, on the document the earlier ones have left, the chain
  returns its result; if none succeeds, the chain returns the placeholder, titled with the
  document's title or, when that is empty, with the URL. The chain has a value in either
  case: what a method throws is caught.
\<close>

theorem fallback_chain_takes_first_success:
  "extractionMethods x =
     [extractWithReadability x, extractWithSemanticSelectors x, extractWithContentSelectors x,
      extractWithMetadata x, extractRawText x]
   \<and> (\<forall>k r. k < 5 \<and> outcomes (extractionMethods x) d u ! k = Inr r
             \<and> length (trim (tc_content r)) > 50
             \<and> (\<forall>j < k. \<not> succeeded (outcomes (extractionMethods x) d u ! j))
          \<longrightarrow> extractContentWithFallbacks x d u = r)
   \<and> ((\<forall>k < 5. \<not> succeeded (outcomes (extractionMethods x) d u ! k))
        \<longrightarrow> extractContentWithFallbacks x d u
            = \<lparr> tc_title = (if documentTitle x (documentAfter (extractionMethods x) d u) = []
                            then u
                            else documentTitle x (documentAfter (extractionMethods x) d u)),
                tc_content = ''No content could be extracted from this page.'' \<rparr>)"
proof (intro conjI allI impI)
  show "extractionMethods x =
     [extractWithReadability x, extractWithSemanticSelectors x, extractWithContentSelectors x,
      extractWithMetadata x, extractRawText x]"
    by (simp add: extractionMethods_def)
next
  fix k r
  assume a: "k < 5 \<and> outcomes (extractionMethods x) d u ! k = Inr r
             \<and> length (trim (tc_content r)) > 50
             \<and> (\<forall>j < k. \<not> succeeded (outcomes (extractionMethods x) d u ! j))"
  have len: "length (extractionMethods x) = 5" by (simp add: extractionMethods_def)
  from a have acc: "accepted r" by (auto simp: accepted_def trim_def)
  from a len have "k < length (extractionMethods x)" by simp
  from tryMethods_first [OF this _ acc] a
  have "fst (tryMethods (extractionMethods x) d u) = Some r" by blast
  then show "extractContentWithFallbacks x d u = r"
    by (cases "tryMethods (extractionMethods x) d u")
       (simp add: extractContentWithFallbacks_def)
next
  assume a: "\<forall>k < 5. \<not> succeeded (outcomes (extractionMethods x) d u ! k)"
  have len: "length (extractionMethods x) = 5" by (simp add: extractionMethods_def)
  from a len have "\<forall>k < length (extractionMethods x).
      \<not> succeeded (outcomes (extractionMethods x) d u ! k)"
    by simp
  from tryMethods_none [OF this]
  show "extractContentWithFallbacks x d u
            = \<lparr> tc_title = (if documentTitle x (documentAfter (extractionMethods x) d u) = []
                            then u
                            else documentTitle x (documentAfter (extractionMethods x) d u)),
                tc_content = ''No content could be extracted from this page.'' \<rparr>"
    by (simp add: extractContentWithFallbacks_def noContent_def)
qed

text \<open>
  Where the semantic and the content selectors both succeed, the semantic result is
  taken; where every method fails on a document titled \<open>Home\<close>, the placeholder has that
  title.
\<close>

theorem fallback_chain_takes_first_success_witness:
  "outcomes (extractionMethods exampleExtractors) ''Home'' ''https://example.com/a'' ! 1
     = Inr \<lparr> tc_title = ''Home'',
             tc_content = ''Semantic: the text of the main element of this page.'' \<rparr>
   \<and> succeeded (outcomes (extractionMethods exampleExtractors) ''Home''
                  ''https://example.com/a'' ! 2)
   \<and> extractContentWithFallbacks exampleExtractors ''Home'' ''https://example.com/a''
     = \<lparr> tc_title = ''Home'',
         tc_content = ''Semantic: the text of the main element of this page.'' \<rparr>
   \<and> extractContentWithFallbacks failingExtractors ''Home'' ''https://example.com/a''
     = \<lparr> tc_title = ''Home'', tc_content = ''No content could be extracted from this page.'' \<rparr>"
proof -
  let ?os = "outcomes (extractionMethods exampleExtractors) ''Home'' ''https://example.com/a''"
  let ?r = "\<lparr> tc_title = ''Home'',
              tc_content = ''Semantic: the text of the main element of this page.'' \<rparr>"
  have os: "?os = [Inl (Error ''Readability failed to parse content''), Inr ?r,
                   Inr \<lparr> tc_title = ''Home'',
                         tc_content = ''Content: the text of the markdown body of this page.'' \<rparr>,
                   Inl (Error ''Insufficient metadata content''),
                   Inl (Error ''Insufficient text content'')]"
    by (simp add: extractionMethods_def exampleExtractors_def)
  have 1: "?os ! 1 = Inr ?r" by (simp add: os)
  have 2: "succeeded (?os ! 2)"
    by (simp add: os succeeded_def accepted_def trim_def isWhiteSpace_def)
  have 3: "length (trim (tc_content ?r)) > 50"
    by (simp add: trim_def isWhiteSpace_def)
  have 4: "\<forall>j < 1. \<not> succeeded (?os ! j)" by (simp add: os succeeded_def)
  have fos: "outcomes (extractionMethods failingExtractors) ''Home'' ''https://example.com/a''
       = [Inl (Error ''Readability failed to parse content''),
          Inl (Error ''No semantic content found''),
          Inl (Error ''No content selectors matched''),
          Inl (Error ''Insufficient metadata content''),
          Inl (Error ''Insufficient text content'')]"
    by (simp add: extractionMethods_def failingExtractors_def)
  have 5: "\<forall>k < 5. \<not> succeeded
      (outcomes (extractionMethods failingExtractors) ''Home'' ''https://example.com/a'' ! k)"
    by (simp add: fos succeeded_def nth_Cons split: nat.splits)
  have d: "documentTitle failingExtractors
             (documentAfter (extractionMethods failingExtractors) ''Home''
                ''https://example.com/a'') = ''Home''"
    by (simp add: extractionMethods_def failingExtractors_def)
  have a: "extractContentWithFallbacks exampleExtractors ''Home'' ''https://example.com/a'' = ?r"
  proof (rule fallback_chain_takes_first_success
           [THEN conjunct2, THEN conjunct1, rule_format, of 1])
    show "1 < (5::nat) \<and> ?os ! 1 = Inr ?r \<and> length (trim (tc_content ?r)) > 50
          \<and> (\<forall>j < 1. \<not> succeeded (?os ! j))"
      using 1 3 4 by simp
  qed
  have "extractContentWithFallbacks failingExtractors ''Home'' ''https://example.com/a''
     = \<lparr> tc_title = (if documentTitle failingExtractors
                           (documentAfter (extractionMethods failingExtractors) ''Home''
                              ''https://example.com/a'') = []
                      then ''https://example.com/a''
                      else documentTitle failingExtractors
                             (documentAfter (extractionMethods failingExtractors) ''Home''
                                ''https://example.com/a'')),
         tc_content = ''No content could be extracted from this page.'' \<rparr>"
    by (rule fallback_chain_takes_first_success
          [THEN conjunct2, THEN conjunct2, THEN mp]) (rule 5)
  then have b: "extractContentWithFallbacks failingExtractors ''Home''
       ''https://example.com/a''
     = \<lparr> tc_title = ''Home'', tc_content = ''No content could be extracted from this page.'' \<rparr>"
    by (simp add: d)
  from 1 2 a b show ?thesis by (intro conjI)
qed

subsection \<open>C9: normalising a URL twice\<close>

text \<open>
  Claim C9. URL normalisation is idempotent, under a fixed \<^verbatim>\<open>keepQueryParams\<close>:
  \<^verbatim>\<open>normalizeUrl(normalizeUrl(u))\<close> is \<^verbatim>\<open>normalizeUrl(u)\<close> for every string \<open>u\<close>.
  \<^verbatim>\<open>normalizeUrl\<close> is written against the platform's \<^verbatim>\<open>URL\<close> and \<^verbatim>\<open>URLSearchParams\<close>
  classes, so the theorem holds for every URL library that obeys four laws of these
  classes: a URL whose fragment was cleared and whose query was then set parses back
  from its serialisation; clearing the fragment of such a URL changes nothing;
  setting the same query twice is setting it once; and after the query is replaced
  by the serialisation of the kept parameters, each kept parameter reads as before.
  A string that does not parse is returned as it is, and so does not parse the
  second time either.
\<close>

theorem normalizeUrl_idempotent:
  fixes lib :: "'u UrlLib"
  assumes "\<forall>x q. url_parse lib (url_toString lib (url_set_search lib (url_set_hash lib x '''') q))
                  = Some (url_set_search lib (url_set_hash lib x '''') q)"
    and "\<forall>x q. url_set_hash lib (url_set_search lib (url_set_hash lib x '''') q) ''''
                  = url_set_search lib (url_set_hash lib x '''') q"
    and "\<forall>x q. url_set_search lib (url_set_search lib x q) q = url_set_search lib x q"
    and "\<forall>x. list_all
               (\<lambda>k. searchParams_get lib
                      (url_set_search lib x
                         (usp_toString lib (paramsToKeep lib (keepQueryParams opts) x))) k
                    = searchParams_get lib x k)
               (keepQueryParams opts)"
  shows "normalizeUrl lib opts (normalizeUrl lib opts u) = normalizeUrl lib opts u"
proof (cases "url_parse lib u")
  case None
  then show ?thesis by (simp add: normalizeUrl_def)
next
  case (Some x)
  define o1 where "o1 = url_set_hash lib x ''''"
  define q where "q = (if keepQueryParams opts \<noteq> []
                       then usp_toString lib (paramsToKeep lib (keepQueryParams opts) o1)
                       else '''')"
  define o2 where "o2 = url_set_search lib o1 q"
  have once: "normalizeUrl lib opts u = url_toString lib o2"
    using Some by (simp add: normalizeUrl_def o1_def q_def o2_def Let_def)
  have parse: "url_parse lib (url_toString lib o2) = Some o2"
    unfolding o2_def o1_def using assms(1) by blast
  have hash: "url_set_hash lib o2 '''' = o2"
    unfolding o2_def o1_def using assms(2) by blast
  have params: "paramsToKeep lib (keepQueryParams opts) o2 = paramsToKeep lib (keepQueryParams opts) o1"
    if "keepQueryParams opts \<noteq> []"
  proof -
    have "searchParams_get lib o2 k = searchParams_get lib o1 k"
      if "k \<in> set (keepQueryParams opts)" for k
      using assms(4) [rule_format, of o1] that \<open>keepQueryParams opts \<noteq> []\<close>
      by (simp add: o2_def q_def list_all_iff)
    then show ?thesis
      unfolding paramsToKeep_def by (intro fold_cong) auto
  qed
  have search: "url_set_search lib o2 q = o2"
    unfolding o2_def using assms(3) by blast
  have "normalizeUrl lib opts (url_toString lib o2) = url_toString lib o2"
  proof (cases "keepQueryParams opts = []")
    case True
    then have "q = ''''" by (simp add: q_def)
    with True search show ?thesis by (simp add: normalizeUrl_def parse hash)
  next
    case False
    with params have "usp_toString lib (paramsToKeep lib (keepQueryParams opts) o2) = q"
      by (simp add: q_def)
    with False search show ?thesis by (simp add: normalizeUrl_def parse hash)
  qed
  with once show ?thesis by simp
qed

theorem normalizeUrl_idempotent_witness:
  "(\<forall>x q. url_parse fourUrlLib
             (url_toString fourUrlLib (url_set_search fourUrlLib (url_set_hash fourUrlLib x '''') q))
           = Some (url_set_search fourUrlLib (url_set_hash fourUrlLib x '''') q))
   \<and> (\<forall>x q. url_set_hash fourUrlLib (url_set_search fourUrlLib (url_set_hash fourUrlLib x '''') q) ''''
           = url_set_search fourUrlLib (url_set_hash fourUrlLib x '''') q)
   \<and> (\<forall>x q. url_set_search fourUrlLib (url_set_search fourUrlLib x q) q
           = url_set_search fourUrlLib x q)
   \<and> (\<forall>x. list_all
             (\<lambda>k. searchParams_get fourUrlLib
                    (url_set_search fourUrlLib x
                       (usp_toString fourUrlLib
                          (paramsToKeep fourUrlLib (keepQueryParams idOptions) x))) k
                  = searchParams_get fourUrlLib x k)
             (keepQueryParams idOptions))
   \<and> normalizeUrl fourUrlLib idOptions ''https://example.com/?id=1#top''
       = ''https://example.com/?id=1''
   \<and> normalizeUrl fourUrlLib idOptions
         (normalizeUrl fourUrlLib idOptions ''https://example.com/?id=1#top'')
       = normalizeUrl fourUrlLib idOptions ''https://example.com/?id=1#top''"
proof -
  have 1: "\<forall>x q. url_parse fourUrlLib
             (url_toString fourUrlLib (url_set_search fourUrlLib (url_set_hash fourUrlLib x '''') q))
           = Some (url_set_search fourUrlLib (url_set_hash fourUrlLib x '''') q)"
    by (simp add: fourUrlLib_def)
  have 2: "\<forall>x q. url_set_hash fourUrlLib (url_set_search fourUrlLib (url_set_hash fourUrlLib x '''') q) ''''
           = url_set_search fourUrlLib (url_set_hash fourUrlLib x '''') q"
    by (simp add: fourUrlLib_def)
  have 3: "\<forall>x q. url_set_search fourUrlLib (url_set_search fourUrlLib x q) q
           = url_set_search fourUrlLib x q"
    by (simp add: fourUrlLib_def)
  have 4: "\<forall>x. list_all
             (\<lambda>k. searchParams_get fourUrlLib
                    (url_set_search fourUrlLib x
                       (usp_toString fourUrlLib
                          (paramsToKeep fourUrlLib (keepQueryParams idOptions) x))) k
                  = searchParams_get fourUrlLib x k)
             (keepQueryParams idOptions)"
    by (simp add: fourUrlLib_def idOptions_def paramsToKeep_def)
  have 5: "normalizeUrl fourUrlLib idOptions ''https://example.com/?id=1#top''
             = ''https://example.com/?id=1''"
    by (simp add: normalizeUrl_def fourUrlLib_def idOptions_def paramsToKeep_def)
  from 1 2 3 4 5 normalizeUrl_idempotent [OF 1 2 3 4, of "''https://example.com/?id=1#top''"]
  show ?thesis by (intro conjI)
qed

subsection \<open>C10: the fallback to the site URL\<close>

text \<open>
  Claim C10: when the include and exclude patterns and the page limit leave no URL,
  \<^verbatim>\<open>filterUrls\<close> returns the one-element list with the configured site URL, so that
  the crawl stage of every run is given at least one URL.

  \<open>limitedUrls\<close> is the list the patterns and the limit leave, \<open>crawlInput\<close> the list that
  \<^verbatim>\<open>generate\<close> passes to \<^verbatim>\<open>crawlPages\<close>.
\<close>

theorem filterUrls_falls_back_to_site:
  "(limitedUrls opts sitemapUrls = [] \<longrightarrow>
      filterUrls opts sitemapUrls = [\<lparr> loc = siteUrl opts, lastmod = None \<rparr>])
   \<and> filterUrls opts sitemapUrls \<noteq> []
   \<and> (\<forall>sortedUrls. crawlInput lib opts w sitemapUrls = Inr sortedUrls \<longrightarrow> sortedUrls \<noteq> [])"
proof (intro conjI allI impI)
  assume "limitedUrls opts sitemapUrls = []"
  then show "filterUrls opts sitemapUrls = [\<lparr> loc = siteUrl opts, lastmod = None \<rparr>]"
    by (simp add: filterUrls_def)
next
  show f: "filterUrls opts sitemapUrls \<noteq> []"
    by (simp add: filterUrls_def)
  fix sortedUrls
  assume "crawlInput lib opts w sitemapUrls = Inr sortedUrls"
  then obtain ds where
    ds: "discoverUrlsRecursively lib opts w (filterUrls opts sitemapUrls) = Inr ds"
    and s: "sortedUrls = sortUrls w (map toSitemapUrl ds)"
    by (auto simp: crawlInput_def split: sum.splits)
  from discoverUrlsRecursively_not_Nil [OF f ds] have "map toSitemapUrl ds \<noteq> []" by simp
  from sortUrls_not_Nil [OF this] s show "sortedUrls \<noteq> []" by simp
qed

text \<open>
  On the example site with an include pattern that no URL of the sitemap matches,
  the crawl is given the site URL alone.
\<close>

theorem filterUrls_falls_back_to_site_witness:
  "limitedUrls unmatchedOptions
      [\<lparr> loc = ''https://example.com/a'', lastmod = Some ''2024-01-02'' \<rparr>,
       \<lparr> loc = ''https://example.com/report.pdf'', lastmod = None \<rparr>] = []
   \<and> filterUrls unmatchedOptions
      [\<lparr> loc = ''https://example.com/a'', lastmod = Some ''2024-01-02'' \<rparr>,
       \<lparr> loc = ''https://example.com/report.pdf'', lastmod = None \<rparr>]
     = [\<lparr> loc = ''https://example.com'', lastmod = None \<rparr>]
   \<and> crawlInput exampleLib unmatchedOptions exampleWorld
      [\<lparr> loc = ''https://example.com/a'', lastmod = Some ''2024-01-02'' \<rparr>,
       \<lparr> loc = ''https://example.com/report.pdf'', lastmod = None \<rparr>]
     = Inr [\<lparr> loc = ''https://example.com'', lastmod = None \<rparr>]
   \<and> [\<lparr> loc = ''https://example.com'', lastmod = None \<rparr>] \<noteq> []"
proof -
  let ?us = "[\<lparr> loc = ''https://example.com/a'', lastmod = Some ''2024-01-02'' \<rparr>,
              \<lparr> loc = ''https://example.com/report.pdf'', lastmod = None \<rparr>]"
  have o: "siteUrl unmatchedOptions = ''https://example.com''"
    "\<not> enableRecursiveDiscovery unmatchedOptions"
    by (simp_all add: unmatchedOptions_def plainOptions_def defaultOptions_def)
  have l: "limitedUrls unmatchedOptions ?us = []"
    by (simp add: limitedUrls_def unmatchedOptions_def plainOptions_def defaultOptions_def
          matchesAnyPattern_def slice0_def)
  from filterUrls_falls_back_to_site [of unmatchedOptions ?us exampleLib exampleWorld] l o(1)
  have f: "filterUrls unmatchedOptions ?us = [\<lparr> loc = ''https://example.com'', lastmod = None \<rparr>]"
    by simp
  have c: "crawlInput exampleLib unmatchedOptions exampleWorld ?us
             = Inr [\<lparr> loc = ''https://example.com'', lastmod = None \<rparr>]"
    by (simp add: crawlInput_def f o discoverUrlsRecursively_def toSitemapUrl_def
          sortUrls_def sortBy_def)
  from l f c show ?thesis by simp
qed

end
